theory Spec2Isabelle
  imports Complex_Main "HOL-Library.Sublist"
begin

section \<open>Progression engine of the virtual lab: levels, streaks and badges\<close>

subsection \<open>Level from experience points\<close>

text \<open>
  Every experiment page (for instance \<^verbatim>\<open>submitResult\<close> in
  \<^verbatim>\<open>src/pages/OhmsLawExperiment.tsx\<close>) derives the level that it stores on the
  profile as
  \<^verbatim>\<open>const newLevel = Math.floor(newXP / 500) + 1;\<close>
  XP totals are integers, so the quotient rounded down is integer division, which on
  \<^typ>\<open>int\<close> rounds towards minus infinity as \<^verbatim>\<open>Math.floor\<close> does.
\<close>

definition computeLevel :: "int \<Rightarrow> int" where
  "computeLevel newXP = newXP div 500 + 1"

subsection \<open>Strings\<close>

text \<open>
  Strings are modelled as \<^typ>\<open>string\<close>, lists of 8-bit characters, read as ASCII:
  \<^verbatim>\<open>toLowerCase\<close> maps \<open>A\<close>..\<open>Z\<close> to \<open>a\<close>..\<open>z\<close> (it sets bit 5 of the
  code) and leaves every other character alone, and the white space of the regular
  expression class \<^verbatim>\<open>\s\<close> and of \<^verbatim>\<open>trim\<close> is tab, line feed, vertical tab,
  form feed, carriage return and space. The badge catalogue and the experiment names of
  the migrations are ASCII.
\<close>

definition isUpper :: "char \<Rightarrow> bool" where
  "isUpper c = (c \<in> set ''ABCDEFGHIJKLMNOPQRSTUVWXYZ'')"

definition toLowerCase_char :: "char \<Rightarrow> char" where
  "toLowerCase_char c =
     (if isUpper c
      then (case c of Char b0 b1 b2 b3 b4 b5 b6 b7 \<Rightarrow> Char b0 b1 b2 b3 b4 True b6 b7)
      else c)"

definition toLowerCase :: "string \<Rightarrow> string" where
  "toLowerCase s = map toLowerCase_char s"

definition isSpace :: "char \<Rightarrow> bool" where
  "isSpace c = (c \<in> set [CHR 0x09, CHR 0x0A, CHR 0x0B, CHR 0x0C, CHR 0x0D, CHR 0x20])"

text \<open>\<^verbatim>\<open>s.replace(/['"]/g, '')\<close>: every apostrophe and double quote is deleted.\<close>

definition isQuote :: "char \<Rightarrow> bool" where
  "isQuote c = (c = CHR 0x27 \<or> c = CHR 0x22)"

definition removeQuotes :: "string \<Rightarrow> string" where
  "removeQuotes s = filter (\<lambda>c. \<not> isQuote c) s"

text \<open>
  \<^verbatim>\<open>s.replace(/\s+/g, ' ')\<close>: every maximal run of white space becomes one space.
\<close>

function replaceWs :: "string \<Rightarrow> string" where
  "replaceWs [] = []"
| "replaceWs (c # cs) =
     (if isSpace c then CHR '' '' # replaceWs (dropWhile isSpace cs)
      else c # replaceWs cs)"
  by pat_completeness auto
termination
  by (relation "measure length") (auto simp: length_dropWhile_le less_Suc_eq_le)

text \<open>\<^verbatim>\<open>s.trim()\<close>: white space is dropped at both ends.\<close>

definition trim :: "string \<Rightarrow> string" where
  "trim s = rev (dropWhile isSpace (rev (dropWhile isSpace s)))"

text \<open>
  The helper of \<^verbatim>\<open>checkAndAwardBadges\<close> (\<^verbatim>\<open>src/lib/badgeUtils.ts\<close>):
  \<^verbatim>\<open>
  const normalizeExperimentName = (name: string): string => {
    return name.toLowerCase()
      .replace(/['"]/g, '')
      .replace(/\s+/g, ' ')
      .trim();
  };
  \<close>
\<close>

definition normalizeExperimentName :: "string \<Rightarrow> string" where
  "normalizeExperimentName name = trim (replaceWs (removeQuotes (toLowerCase name)))"

text \<open>
  \<^verbatim>\<open>hay.includes(needle)\<close>: the needle occurs in the haystack as a contiguous
  block; the empty needle occurs in every string.
\<close>

fun startsWith :: "string \<Rightarrow> string \<Rightarrow> bool" where
  "startsWith s [] = True"
| "startsWith [] (p # ps) = False"
| "startsWith (c # cs) (p # ps) = (c = p \<and> startsWith cs ps)"

fun includes_str :: "string \<Rightarrow> string \<Rightarrow> bool" where
  "includes_str [] needle = (needle = [])"
| "includes_str (c # cs) needle = (startsWith (c # cs) needle \<or> includes_str cs needle)"

subsection \<open>Data of the badge check\<close>

text \<open>
  The interfaces of \<^verbatim>\<open>src/lib/badgeUtils.ts\<close>. An optional field is an
  \<^typ>\<open>'a option\<close> with \<open>None\<close> for \<^verbatim>\<open>undefined\<close>; a nullable column is an
  option with \<open>None\<close> for \<^verbatim>\<open>null\<close>. The columns \<^verbatim>\<open>score\<close> and
  \<^verbatim>\<open>xp_points\<close> are \<^verbatim>\<open>INTEGER\<close> in the schema, and the thresholds of
  the catalogue are whole numbers: scores, thresholds and XP are \<^typ>\<open>int\<close>. The
  checks never read \<^verbatim>\<open>accuracy\<close>. Every badge has its criteria object, as
  \<^verbatim>\<open>interface Badge\<close> declares and the cast \<^verbatim>\<open>allBadges as Badge[]\<close>
  asserts, and every field of the criteria has the type that
  \<^verbatim>\<open>interface BadgeCriteria\<close> gives it.
\<close>

record BadgeCriteria =
  experiments_completed :: "int option"
  experiment_type :: "string option"
  completed :: "bool option"
  accuracy_threshold :: "int option"
  xp_threshold :: "int option"
  subject :: "string option"
  min_accuracy :: "int option"

record Badge =
  badge_id :: string
  badge_name :: string
  description :: string
  icon :: string
  tier :: string
  criteria :: BadgeCriteria

text \<open>The joined row \<^verbatim>\<open>experiments (name, subject)\<close> of a run.\<close>

record ExperimentInfo =
  exp_name :: string
  exp_subject :: string

record ExperimentRun =
  run_id :: string
  experiment_id :: string
  status :: "string option"
  score :: "int option"
  accuracy :: "int option"
  experiments :: "ExperimentInfo option"

text \<open>
  JavaScript truthiness, for the tests \<^verbatim>\<open>if (criteria.experiment_type)\<close> and
  \<^verbatim>\<open>!criteria.accuracy_threshold\<close>: a string is truthy when it is present and not
  empty, a number when it is present and not zero.
\<close>

definition truthy_str :: "string option \<Rightarrow> bool" where
  "truthy_str s = (case s of None \<Rightarrow> False | Some v \<Rightarrow> v \<noteq> [])"

definition truthy_num :: "int option \<Rightarrow> bool" where
  "truthy_num n = (case n of None \<Rightarrow> False | Some v \<Rightarrow> v \<noteq> 0)"

text \<open>The string of a field that a truthiness test has found present.\<close>

definition str_of :: "string option \<Rightarrow> string" where
  "str_of s = (case s of None \<Rightarrow> [] | Some v \<Rightarrow> v)"

text \<open>\<^verbatim>\<open>r.score || 0\<close>\<close>

definition score_or_0 :: "ExperimentRun \<Rightarrow> int" where
  "score_or_0 r = (case score r of None \<Rightarrow> 0 | Some v \<Rightarrow> v)"

text \<open>\<^verbatim>\<open>(r.experiments as any)?.name || ''\<close>\<close>

definition name_or_empty :: "ExperimentRun \<Rightarrow> string" where
  "name_or_empty r = (case experiments r of None \<Rightarrow> [] | Some e \<Rightarrow> exp_name e)"

text \<open>
  \<^verbatim>\<open>(r.experiments as any)?.subject?.toLowerCase()\<close>, which is \<^verbatim>\<open>undefined\<close>
  for a run without its joined experiment, and
  \<^verbatim>\<open>((r.experiments as any)?.subject || '').toLowerCase()\<close>, which is the empty
  string there.
\<close>

definition subject_lower_opt :: "ExperimentRun \<Rightarrow> string option" where
  "subject_lower_opt r =
     (case experiments r of None \<Rightarrow> None | Some e \<Rightarrow> Some (toLowerCase (exp_subject e)))"

definition subject_lower_or_empty :: "ExperimentRun \<Rightarrow> string" where
  "subject_lower_or_empty r =
     (case experiments r of None \<Rightarrow> toLowerCase [] | Some e \<Rightarrow> toLowerCase (exp_subject e))"

text \<open>\<^verbatim>\<open>criteria.subject?.toLowerCase()\<close>\<close>

definition criteria_subject_lower :: "BadgeCriteria \<Rightarrow> string option" where
  "criteria_subject_lower c = map_option toLowerCase (subject c)"

text \<open>
  The name test of the three type-based checks:
  \<^verbatim>\<open>
  const expTypeNormalized = normalizeExperimentName(criteria.experiment_type);
  ... const expName = normalizeExperimentName((r.experiments as any)?.name || '');
      return expName.includes(expTypeNormalized);
  \<close>
\<close>

definition typeMatches :: "string \<Rightarrow> ExperimentRun \<Rightarrow> bool" where
  "typeMatches experimentType r =
     includes_str (normalizeExperimentName (name_or_empty r))
       (normalizeExperimentName experimentType)"

text \<open>
  \<^verbatim>\<open>runs.length > 0 ? Math.max(...runs.map(r => r.score || 0)) : 0\<close>
\<close>

fun maxOfList :: "int list \<Rightarrow> int" where
  "maxOfList [] = 0"
| "maxOfList [x] = x"
| "maxOfList (x # y # ys) = max x (maxOfList (y # ys))"

definition maxAccuracy :: "ExperimentRun list \<Rightarrow> int" where
  "maxAccuracy runs = (if length runs > 0 then maxOfList (map score_or_0 runs) else 0)"

subsection \<open>The criteria checks of \<^verbatim>\<open>checkAndAwardBadges\<close>\<close>

text \<open>
  The body of the loop over the badges starts with \<^verbatim>\<open>let shouldAward = false\<close>
  and then runs five \<^verbatim>\<open>if\<close> statements one after the other, each of which can
  only set the flag. Each statement is a function from the flag before it to the flag
  after it. \<open>completedRuns\<close> are the runs with \<^verbatim>\<open>r.status === 'completed'\<close>.
\<close>

definition isCompleted :: "ExperimentRun \<Rightarrow> bool" where
  "isCompleted r = (status r = Some ''completed'')"

text \<open>
  \<^verbatim>\<open>
  if (criteria.experiments_completed !== undefined) {
    if (criteria.experiment_type) {
      const typeRuns = completedRuns.filter(...name test...);
      if (criteria.min_accuracy !== undefined) {
        const accurateRuns = typeRuns.filter(r => (r.score || 0) >= criteria.min_accuracy!);
        if (accurateRuns.length >= criteria.experiments_completed) shouldAward = true;
      } else {
        if (typeRuns.length >= criteria.experiments_completed) shouldAward = true;
      }
    } else if (criteria.subject) {
      const subjectRuns = completedRuns.filter(r =>
        ((r.experiments as any)?.subject || '').toLowerCase() === criteria.subject?.toLowerCase());
      if (subjectRuns.length >= criteria.experiments_completed) shouldAward = true;
    } else {
      if (completedRuns.length >= criteria.experiments_completed) shouldAward = true;
    }
  }
  \<close>
\<close>

definition check_experiments_completed ::
  "BadgeCriteria \<Rightarrow> ExperimentRun list \<Rightarrow> bool \<Rightarrow> bool" where
  "check_experiments_completed c completedRuns shouldAward =
     (case experiments_completed c of
        None \<Rightarrow> shouldAward
      | Some n \<Rightarrow>
          if truthy_str (experiment_type c) then
            (let typeRuns = filter (typeMatches (str_of (experiment_type c))) completedRuns in
             case min_accuracy c of
               Some m \<Rightarrow>
                 (let accurateRuns = filter (\<lambda>r. score_or_0 r \<ge> m) typeRuns in
                  if int (length accurateRuns) \<ge> n then True else shouldAward)
             | None \<Rightarrow> if int (length typeRuns) \<ge> n then True else shouldAward)
          else if truthy_str (subject c) then
            (let subjectRuns =
                   filter (\<lambda>r. Some (subject_lower_or_empty r) = criteria_subject_lower c)
                     completedRuns in
             if int (length subjectRuns) \<ge> n then True else shouldAward)
          else if int (length completedRuns) \<ge> n then True else shouldAward)"

text \<open>
  \<^verbatim>\<open>
  if (criteria.experiment_type && completedExperiment) {
    const expName = normalizeExperimentName((completedExperiment.experiments as any)?.name || '');
    const expTypeNormalized = normalizeExperimentName(criteria.experiment_type);
    if (expName.includes(expTypeNormalized) && completedExperiment.status === 'completed') {
      if (criteria.completed === true) {
        shouldAward = true;
      } else if (!criteria.accuracy_threshold && !criteria.experiments_completed) {
        shouldAward = true;
      }
    }
  }
  \<close>
\<close>

definition check_experiment_type ::
  "BadgeCriteria \<Rightarrow> ExperimentRun option \<Rightarrow> bool \<Rightarrow> bool" where
  "check_experiment_type c completedExperiment shouldAward =
     (case completedExperiment of
        None \<Rightarrow> shouldAward
      | Some ce \<Rightarrow>
          if truthy_str (experiment_type c) then
            if typeMatches (str_of (experiment_type c)) ce \<and> isCompleted ce then
              if completed c = Some True then True
              else if \<not> truthy_num (accuracy_threshold c)
                      \<and> \<not> truthy_num (experiments_completed c) then True
              else shouldAward
            else shouldAward
          else shouldAward)"

text \<open>
  \<^verbatim>\<open>
  if (criteria.accuracy_threshold !== undefined) {
    if (criteria.experiment_type) {
      const typeRuns = completedRuns.filter(...name test...);
      const maxAccuracy = typeRuns.length > 0
        ? Math.max(...typeRuns.map(r => r.score || 0)) : 0;
      if (maxAccuracy >= criteria.accuracy_threshold) shouldAward = true;
    } else {
      const maxAccuracy = completedRuns.length > 0
        ? Math.max(...completedRuns.map(r => r.score || 0)) : 0;
      if (maxAccuracy >= criteria.accuracy_threshold) shouldAward = true;
    }
  }
  \<close>
\<close>

definition check_accuracy_threshold ::
  "BadgeCriteria \<Rightarrow> ExperimentRun list \<Rightarrow> bool \<Rightarrow> bool" where
  "check_accuracy_threshold c completedRuns shouldAward =
     (case accuracy_threshold c of
        None \<Rightarrow> shouldAward
      | Some a \<Rightarrow>
          if truthy_str (experiment_type c) then
            (let typeRuns = filter (typeMatches (str_of (experiment_type c))) completedRuns in
             if maxAccuracy typeRuns \<ge> a then True else shouldAward)
          else if maxAccuracy completedRuns \<ge> a then True else shouldAward)"

text \<open>
  \<^verbatim>\<open>
  if (criteria.xp_threshold !== undefined) {
    if (currentXP >= criteria.xp_threshold) shouldAward = true;
  }
  \<close>
\<close>

definition check_xp_threshold :: "BadgeCriteria \<Rightarrow> int \<Rightarrow> bool \<Rightarrow> bool" where
  "check_xp_threshold c currentXP shouldAward =
     (case xp_threshold c of
        None \<Rightarrow> shouldAward
      | Some x \<Rightarrow> if currentXP \<ge> x then True else shouldAward)"

text \<open>
  \<^verbatim>\<open>
  if (criteria.subject && criteria.min_accuracy !== undefined) {
    const subjectRuns = completedRuns.filter(r =>
      (r.experiments as any)?.subject?.toLowerCase() === criteria.subject?.toLowerCase());
    const allSubjectRuns = (allRuns || []).filter(r =>
      (r.experiments as any)?.subject?.toLowerCase() === criteria.subject?.toLowerCase());
    if (allSubjectRuns.length > 0 &&
        subjectRuns.length === allSubjectRuns.length &&
        subjectRuns.every(r => (r.score || 0) >= criteria.min_accuracy!)) {
      shouldAward = true;
    }
  }
  \<close>
\<close>

definition sameSubject :: "BadgeCriteria \<Rightarrow> ExperimentRun \<Rightarrow> bool" where
  "sameSubject c r = (subject_lower_opt r = criteria_subject_lower c)"

definition check_subject_min_accuracy ::
  "BadgeCriteria \<Rightarrow> ExperimentRun list \<Rightarrow> ExperimentRun list \<Rightarrow> bool \<Rightarrow> bool" where
  "check_subject_min_accuracy c completedRuns allRuns shouldAward =
     (case min_accuracy c of
        None \<Rightarrow> shouldAward
      | Some m \<Rightarrow>
          if truthy_str (subject c) then
            (let subjectRuns = filter (sameSubject c) completedRuns;
                 allSubjectRuns = filter (sameSubject c) allRuns in
             if length allSubjectRuns > 0
                \<and> length subjectRuns = length allSubjectRuns
                \<and> list_all (\<lambda>r. score_or_0 r \<ge> m) subjectRuns
             then True else shouldAward)
          else shouldAward)"

text \<open>
  The five statements in the order of the source, from \<^verbatim>\<open>shouldAward = false\<close>.
  \<open>allRuns\<close> is the fetched history, \<^verbatim>\<open>allRuns || []\<close>.
\<close>

definition shouldAward ::
  "BadgeCriteria \<Rightarrow> int \<Rightarrow> ExperimentRun list \<Rightarrow> ExperimentRun option \<Rightarrow> bool" where
  "shouldAward c currentXP allRuns completedExperiment =
     (let completedRuns = filter isCompleted allRuns;
          s0 = False;
          s1 = check_experiments_completed c completedRuns s0;
          s2 = check_experiment_type c completedExperiment s1;
          s3 = check_accuracy_threshold c completedRuns s2;
          s4 = check_xp_threshold c currentXP s3;
          s5 = check_subject_min_accuracy c completedRuns allRuns s4
      in s5)"

subsection \<open>The store and the loop over the badges\<close>

text \<open>
  The Supabase client answers every request with an object \<^verbatim>\<open>{ data, error }\<close>;
  a failed request has \<^verbatim>\<open>error\<close> set, and this is how the function reads every
  failure. On data of the declared types no statement of the body raises, so the
  \<^verbatim>\<open>catch\<close> around the body (which would return the names pushed so far) is
  never entered. The store is the function's environment:
  what the three selects return and, for each badge id, the error of the insert into
  \<^verbatim>\<open>user_badges\<close> (\<open>None\<close> when the row is written).
\<close>

record 'a Response =
  resp_data :: "'a option"
  resp_error :: "string option"

record Store =
  select_badges :: "Badge list Response"
  select_user_badges :: "string \<Rightarrow> string list Response"
  select_experiment_runs :: "string \<Rightarrow> ExperimentRun list Response"
  insert_user_badge :: "string \<Rightarrow> string \<Rightarrow> string option"

text \<open>
  What a call leaves behind: the returned \<^verbatim>\<open>awardedBadgeNames\<close> and the insert
  requests it sent, as pairs of user id and badge id, in order.
\<close>

record Outcome =
  awardedBadgeNames :: "string list"
  insertRequests :: "(string \<times> string) list"

text \<open>
  \<^verbatim>\<open>
  for (const badge of allBadges as Badge[]) {
    if (earnedBadgeIds.has(badge.id)) continue;
    ... shouldAward ...
    if (shouldAward) {
      const { error: awardError } = await supabase.from('user_badges').insert({...});
      if (!awardError) awardedBadgeNames.push(badge.name);
      else console.error(...);
    }
  }
  \<close>
\<close>

fun awardLoop ::
  "Store \<Rightarrow> string \<Rightarrow> int \<Rightarrow> ExperimentRun option \<Rightarrow> string set \<Rightarrow> ExperimentRun list
   \<Rightarrow> Badge list \<Rightarrow> Outcome \<Rightarrow> Outcome" where
  "awardLoop st userId currentXP completedExperiment earnedBadgeIds allRuns [] out = out"
| "awardLoop st userId currentXP completedExperiment earnedBadgeIds allRuns (badge # rest) out =
     (if badge_id badge \<in> earnedBadgeIds then
        awardLoop st userId currentXP completedExperiment earnedBadgeIds allRuns rest out
      else if shouldAward (criteria badge) currentXP allRuns completedExperiment then
        (let out1 = out\<lparr>insertRequests := insertRequests out @ [(userId, badge_id badge)]\<rparr> in
         case insert_user_badge st userId (badge_id badge) of
           None \<Rightarrow>
             awardLoop st userId currentXP completedExperiment earnedBadgeIds allRuns rest
               (out1\<lparr>awardedBadgeNames := awardedBadgeNames out1 @ [badge_name badge]\<rparr>)
         | Some awardError \<Rightarrow>
             awardLoop st userId currentXP completedExperiment earnedBadgeIds allRuns rest out1)
      else awardLoop st userId currentXP completedExperiment earnedBadgeIds allRuns rest out)"

text \<open>
  \<^verbatim>\<open>checkAndAwardBadges(userId, currentXP, completedExperiment?)\<close>: the three
  fetches, each with its early return of the still empty \<^verbatim>\<open>awardedBadgeNames\<close>,
  then the loop.
  \<^verbatim>\<open>
  if (badgesError || !allBadges) return awardedBadgeNames;
  if (userBadgesError) return awardedBadgeNames;
  const earnedBadgeIds = new Set(userBadges?.map(ub => ub.badge_id) || []);
  if (runsError) return awardedBadgeNames;
  \<close>
\<close>

definition noOutcome :: Outcome where
  "noOutcome = \<lparr>awardedBadgeNames = [], insertRequests = []\<rparr>"

definition list_or_empty :: "'a list option \<Rightarrow> 'a list" where
  "list_or_empty l = (case l of None \<Rightarrow> [] | Some xs \<Rightarrow> xs)"

definition checkAndAwardBadges ::
  "Store \<Rightarrow> string \<Rightarrow> int \<Rightarrow> ExperimentRun option \<Rightarrow> Outcome" where
  "checkAndAwardBadges st userId currentXP completedExperiment =
     (let badges = select_badges st in
      if resp_error badges \<noteq> None \<or> resp_data badges = None then noOutcome
      else
        let userBadges = select_user_badges st userId in
        if resp_error userBadges \<noteq> None then noOutcome
        else
          let earnedBadgeIds = set (list_or_empty (resp_data userBadges));
              runs = select_experiment_runs st userId in
          if resp_error runs \<noteq> None then noOutcome
          else
            awardLoop st userId currentXP completedExperiment earnedBadgeIds
              (list_or_empty (resp_data runs)) (list_or_empty (resp_data badges)) noOutcome)"

subsection \<open>The activity streak of the dashboard\<close>

text \<open>
  \<^verbatim>\<open>calculateStreak\<close> of \<^verbatim>\<open>src/pages/Dashboard.tsx\<close> names every day by the
  string \<^verbatim>\<open>YYYY-MM-DD\<close> of its local calendar date and steps back with
  \<^verbatim>\<open>currentDate.setDate(currentDate.getDate() - 1)\<close>. The model names a calendar
  day by its number (consecutive days have consecutive numbers), and takes the local
  calendar as a parameter \<open>dayOf\<close>, the day number of an instant. \<open>completed_at\<close> is
  the instant of completion, \<open>None\<close> when the column is null.
\<close>

record RunRow =
  row_status :: "string option"
  completed_at :: "int option"

text \<open>
  \<^verbatim>\<open>
  experiments.filter(e => e.status === 'completed' && e.completed_at)
    .forEach(e => { ... completedDates.add(dateStr); });
  \<close>
\<close>

definition completedDates :: "(int \<Rightarrow> int) \<Rightarrow> RunRow list \<Rightarrow> int list" where
  "completedDates dayOf rows =
     [dayOf t. e \<leftarrow> rows, row_status e = Some ''completed'', Some t \<leftarrow> [completed_at e]]"

text \<open>
  \<^verbatim>\<open>
  let streak = 0;
  while (true) {
    if (completedDates.has(dateStr)) { streak++; currentDate.setDate(currentDate.getDate() - 1); }
    else break;
  }
  \<close>
  The loop ends because each round leaves one day fewer of the set at or before
  \<open>currentDate\<close>.
\<close>

function countBackwards :: "int list \<Rightarrow> int \<Rightarrow> nat \<Rightarrow> nat" where
  "countBackwards dates currentDate streak =
     (if currentDate \<in> set dates then countBackwards dates (currentDate - 1) (streak + 1)
      else streak)"
  by pat_completeness auto
termination
proof (relation "measure (\<lambda>(dates, currentDate, streak). length (filter (\<lambda>d. d \<le> currentDate) dates))")
  show "wf (measure (\<lambda>(dates, currentDate, streak). length (filter (\<lambda>d. d \<le> currentDate) dates)))"
    by simp
next
  fix dates :: "int list" and currentDate :: int and streak :: nat
  assume mem: "currentDate \<in> set dates"
  have "length (filter (\<lambda>d. d \<le> currentDate - 1) dates)
        < length (filter (\<lambda>d. d \<le> currentDate) dates)"
    using mem
  proof (induction dates)
    case Nil
    then show ?case by simp
  next
    case (Cons a ds)
    have le: "length (filter (\<lambda>d. d \<le> currentDate - 1) ds)
              \<le> length (filter (\<lambda>d. d \<le> currentDate) ds)"
      by (induction ds) auto
    show ?case
    proof (cases "currentDate \<in> set ds")
      case True
      with Cons.IH show ?thesis by auto
    next
      case False
      with Cons.prems have "a = currentDate" by simp
      with le show ?thesis by simp
    qed
  qed
  then show "((dates, currentDate - 1, streak + 1), (dates, currentDate, streak))
             \<in> measure (\<lambda>(dates, currentDate, streak). length (filter (\<lambda>d. d \<le> currentDate) dates))"
    by simp
qed

text \<open>
  The equation of the loop unfolds for ever when it is used as a rewrite rule on a day
  that is not known; it is applied by hand.
\<close>

declare countBackwards.simps [simp del]

text \<open>
  \<^verbatim>\<open>
  if (completedDates.size === 0) return 0;
  let currentDate = new Date(today); currentDate.setHours(0, 0, 0, 0);
  if (!completedDates.has(todayStr)) {
    currentDate.setDate(currentDate.getDate() - 1);
    if (!completedDates.has(yesterdayStr)) return 0;
  }
  ... the loop ...
  return streak;
  \<close>
  \<open>now\<close> is the instant \<^verbatim>\<open>new Date()\<close> of the call.
\<close>

definition calculateStreak :: "(int \<Rightarrow> int) \<Rightarrow> int \<Rightarrow> RunRow list \<Rightarrow> nat" where
  "calculateStreak dayOf now rows =
     (let dates = completedDates dayOf rows;
          today = dayOf now
      in if dates = [] then 0
         else if today \<notin> set dates then
           (let currentDate = today - 1
            in if currentDate \<notin> set dates then 0
               else countBackwards dates currentDate 0)
         else countBackwards dates today 0)"

subsection \<open>Derived notions\<close>

text \<open>A badge qualifies when it is not yet earned and its flag is set.\<close>

definition qualifies ::
  "string set \<Rightarrow> int \<Rightarrow> ExperimentRun list \<Rightarrow> ExperimentRun option \<Rightarrow> Badge \<Rightarrow> bool" where
  "qualifies earned xp runs ce b =
     (badge_id b \<notin> earned \<and> shouldAward (criteria b) xp runs ce)"

text \<open>
  The badge ids of the rows that a call wrote to \<^verbatim>\<open>user_badges\<close>: the insert
  requests that the store answered without an error.
\<close>

definition awardedBadgeIds :: "Store \<Rightarrow> Outcome \<Rightarrow> string list" where
  "awardedBadgeIds st out =
     map snd (filter (\<lambda>(u, i). insert_user_badge st u i = None) (insertRequests out))"

text \<open>
  Criteria that carry the fields of the subject mastery check, \<open>subject\<close> and
  \<open>min_accuracy\<close>, and no field that another check reads: no
  \<open>experiments_completed\<close>, no truthy \<open>experiment_type\<close>, no
  \<open>accuracy_threshold\<close>, no \<open>xp_threshold\<close>. The catalogue's \<open>Physics Wizard\<close>,
  \<open>Chemistry Wizard\<close> and \<open>Biology Wizard\<close> have this shape.
\<close>

definition onlySubjectMastery :: "BadgeCriteria \<Rightarrow> bool" where
  "onlySubjectMastery c =
     (truthy_str (subject c) \<and> min_accuracy c \<noteq> None
      \<and> experiments_completed c = None \<and> \<not> truthy_str (experiment_type c)
      \<and> accuracy_threshold c = None \<and> xp_threshold c = None)"

text \<open>
  The criterion blocks in the words of the specification's table, each over the whole
  attempt history. A subject matches case-insensitively; a name matches a type by the
  name test above; a missing score counts as 0.
\<close>

definition subjectMatches :: "string \<Rightarrow> ExperimentRun \<Rightarrow> bool" where
  "subjectMatches s r =
     (case experiments r of None \<Rightarrow> False
      | Some e \<Rightarrow> toLowerCase (exp_subject e) = toLowerCase s)"

text \<open>
  Count by type (\<open>experimentsCompleted\<close>, \<open>experimentType\<close>, optional
  \<open>minAccuracy\<close>): the completed attempts whose name matches the type, further those
  with a score of at least \<open>minAccuracy\<close> when that is present, number at least
  \<open>experimentsCompleted\<close>.
\<close>

definition block_count_by_type :: "BadgeCriteria \<Rightarrow> ExperimentRun list \<Rightarrow> bool" where
  "block_count_by_type c attempts =
     (case experiments_completed c of None \<Rightarrow> False
      | Some n \<Rightarrow>
          truthy_str (experiment_type c)
          \<and> n \<le> int (length (filter
                 (\<lambda>r. isCompleted r \<and> typeMatches (str_of (experiment_type c)) r
                      \<and> (case min_accuracy c of None \<Rightarrow> True | Some m \<Rightarrow> m \<le> score_or_0 r))
                 attempts)))"

text \<open>
  Count by subject (\<open>experimentsCompleted\<close>, \<open>subject\<close>): the completed attempts of
  the subject number at least \<open>experimentsCompleted\<close>.
\<close>

definition block_count_by_subject :: "BadgeCriteria \<Rightarrow> ExperimentRun list \<Rightarrow> bool" where
  "block_count_by_subject c attempts =
     (case experiments_completed c of None \<Rightarrow> False
      | Some n \<Rightarrow>
          truthy_str (subject c)
          \<and> n \<le> int (length (filter
                 (\<lambda>r. isCompleted r \<and> subjectMatches (str_of (subject c)) r) attempts)))"

text \<open>
  Overall count (\<open>experimentsCompleted\<close> only, so neither type nor subject): the
  completed attempts number at least \<open>experimentsCompleted\<close>.
\<close>

definition block_count_overall :: "BadgeCriteria \<Rightarrow> ExperimentRun list \<Rightarrow> bool" where
  "block_count_overall c attempts =
     (case experiments_completed c of None \<Rightarrow> False
      | Some n \<Rightarrow>
          \<not> truthy_str (experiment_type c) \<and> \<not> truthy_str (subject c)
          \<and> n \<le> int (length (filter isCompleted attempts)))"

text \<open>
  Type completion (\<open>experimentType\<close>, with \<open>completed\<close> or no other threshold): the
  attempt that was just completed matches the type and is completed, and the criteria
  either ask for completion only or carry neither an accuracy nor a count threshold.
\<close>

definition block_type_completion :: "BadgeCriteria \<Rightarrow> ExperimentRun option \<Rightarrow> bool" where
  "block_type_completion c justCompleted =
     (case justCompleted of None \<Rightarrow> False
      | Some r \<Rightarrow>
          truthy_str (experiment_type c)
          \<and> typeMatches (str_of (experiment_type c)) r \<and> isCompleted r
          \<and> (completed c = Some True
              \<or> (\<not> truthy_num (accuracy_threshold c) \<and> \<not> truthy_num (experiments_completed c))))"

text \<open>
  Accuracy threshold (\<open>accuracyThreshold\<close>, optional \<open>experimentType\<close>): the
  maximum score over the completed attempts, those of the type when a type is given, is
  at least the threshold; the maximum of no attempt is 0.
\<close>

definition block_accuracy_threshold :: "BadgeCriteria \<Rightarrow> ExperimentRun list \<Rightarrow> bool" where
  "block_accuracy_threshold c attempts =
     (case accuracy_threshold c of None \<Rightarrow> False
      | Some a \<Rightarrow>
          (let considered =
                 (if truthy_str (experiment_type c)
                  then filter (\<lambda>r. isCompleted r \<and> typeMatches (str_of (experiment_type c)) r)
                         attempts
                  else filter isCompleted attempts)
           in (considered = [] \<and> a \<le> 0) \<or> list_ex (\<lambda>r. a \<le> score_or_0 r) considered))"

text \<open>XP threshold (\<open>xpThreshold\<close>): the current XP is at least the threshold.\<close>

definition block_xp_threshold :: "BadgeCriteria \<Rightarrow> int \<Rightarrow> bool" where
  "block_xp_threshold c currentXP =
     (case xp_threshold c of None \<Rightarrow> False | Some x \<Rightarrow> x \<le> currentXP)"

text \<open>
  Subject mastery (\<open>subject\<close>, \<open>minAccuracy\<close>): there is an attempt for the subject,
  and every attempt for the subject is completed with a score of at least
  \<open>minAccuracy\<close>.
\<close>

definition block_subject_mastery :: "BadgeCriteria \<Rightarrow> ExperimentRun list \<Rightarrow> bool" where
  "block_subject_mastery c attempts =
     (case min_accuracy c of None \<Rightarrow> False
      | Some m \<Rightarrow>
          truthy_str (subject c)
          \<and> list_ex (subjectMatches (str_of (subject c))) attempts
          \<and> list_all (\<lambda>r. isCompleted r \<and> m \<le> score_or_0 r)
                (filter (subjectMatches (str_of (subject c))) attempts))"

text \<open>
  Two adjacent white space characters somewhere in a string.
\<close>

definition adjacentWs :: "string \<Rightarrow> bool" where
  "adjacentWs s = (\<exists>a b. isSpace a \<and> isSpace b \<and> sublist [a, b] s)"

text \<open>
  The calendar days with a completion: the local day of \<open>completed_at\<close> of some row
  that has status \<open>completed\<close> and a completion instant. And a run of \<open>n\<close> consecutive
  active days that ends at the day \<open>anchor\<close>: the days \<open>anchor\<close>, \<open>anchor - 1\<close>, ...,
  \<open>anchor - (n - 1)\<close> are active and the day \<open>anchor - n\<close> is not, so the run cannot
  be extended further back.
\<close>

definition activeDays :: "(int \<Rightarrow> int) \<Rightarrow> RunRow list \<Rightarrow> int set" where
  "activeDays dayOf rows =
     {d. \<exists>e \<in> set rows. row_status e = Some ''completed''
           \<and> (\<exists>t. completed_at e = Some t \<and> dayOf t = d)}"

definition runEndingAt :: "int set \<Rightarrow> int \<Rightarrow> nat \<Rightarrow> bool" where
  "runEndingAt D anchor n = ((\<forall>k<n. anchor - int k \<in> D) \<and> anchor - int n \<notin> D)"

subsection \<open>Example data\<close>

text \<open>
  Values for the concrete instances below. \<open>completedRun\<close> has the shape of the object
  that the experiment pages hand to \<^verbatim>\<open>checkAndAwardBadges\<close>
  (\<^verbatim>\<open>{ id, experiment_id, status: 'completed', score, accuracy: score,
  experiments: { name, subject } }\<close>); \<open>startedRun\<close> is a run that is still in
  progress. \<open>storeOf\<close> is a store whose selects succeed and whose insert fails exactly
  for the listed badge ids.
\<close>

definition completedRun :: "string \<Rightarrow> string \<Rightarrow> int \<Rightarrow> ExperimentRun" where
  "completedRun name subj sc =
     \<lparr>run_id = ''run'', experiment_id = ''exp'', status = Some ''completed'',
      score = Some sc, accuracy = Some sc,
      experiments = Some \<lparr>exp_name = name, exp_subject = subj\<rparr>\<rparr>"

definition startedRun :: "string \<Rightarrow> string \<Rightarrow> ExperimentRun" where
  "startedRun name subj =
     \<lparr>run_id = ''run'', experiment_id = ''exp'', status = Some ''in_progress'',
      score = None, accuracy = None,
      experiments = Some \<lparr>exp_name = name, exp_subject = subj\<rparr>\<rparr>"

definition noCriteria :: BadgeCriteria where
  "noCriteria =
     \<lparr>experiments_completed = None, experiment_type = None, completed = None,
      accuracy_threshold = None, xp_threshold = None, subject = None, min_accuracy = None\<rparr>"

definition badgeOf :: "string \<Rightarrow> string \<Rightarrow> BadgeCriteria \<Rightarrow> Badge" where
  "badgeOf i n c =
     \<lparr>badge_id = i, badge_name = n, description = [], icon = [], tier = ''gold'', criteria = c\<rparr>"

definition storeOf ::
  "Badge list \<Rightarrow> string list \<Rightarrow> ExperimentRun list \<Rightarrow> string list \<Rightarrow> Store" where
  "storeOf bs earned runs failing =
     \<lparr>select_badges = \<lparr>resp_data = Some bs, resp_error = None\<rparr>,
      select_user_badges = (\<lambda>u. \<lparr>resp_data = Some earned, resp_error = None\<rparr>),
      select_experiment_runs = (\<lambda>u. \<lparr>resp_data = Some runs, resp_error = None\<rparr>),
      insert_user_badge = (\<lambda>u b. if b \<in> set failing then Some ''insert failed'' else None)\<rparr>"

text \<open>
  A definition that carries the fields of two checks: five completed experiments, and
  an accuracy of 90.
\<close>

definition countAndAccuracy :: BadgeCriteria where
  "countAndAccuracy = noCriteria\<lparr>experiments_completed := Some 5, accuracy_threshold := Some 90\<rparr>"

text \<open>Five completed runs with a low score.\<close>

definition fiveLowRuns :: "ExperimentRun list" where
  "fiveLowRuns =
     [completedRun ''Acid-Base Titration'' ''Chemistry'' 40,
      completedRun ''Acid-Base Titration'' ''Chemistry'' 55,
      completedRun ''Ohm's Law Laboratory'' ''Physics'' 30,
      completedRun ''Ohm's Law Laboratory'' ''Physics'' 60,
      completedRun ''Blood Group Determination'' ''Biology'' 45]"

text \<open>
  Three badges with an XP threshold each, and the catalogue's badge for a first
  completion of the Ohm's law experiment
  (\<^verbatim>\<open>{"experiment_type": "ohms law", "completed": true}\<close>).
\<close>

definition xpBadge :: "string \<Rightarrow> string \<Rightarrow> int \<Rightarrow> Badge" where
  "xpBadge i n x = badgeOf i n (noCriteria\<lparr>xp_threshold := Some x\<rparr>)"

definition threeXpBadges :: "Badge list" where
  "threeXpBadges =
     [xpBadge ''b1'' ''Rising Star'' 100, xpBadge ''b2'' ''Scholar'' 200,
      xpBadge ''b3'' ''Legend'' 300]"

definition ohmsLawBeginner :: Badge where
  "ohmsLawBeginner = badgeOf ''b-ohm'' ''Ohm's Law Beginner''
     (noCriteria\<lparr>experiment_type := Some ''ohms law'', completed := Some True\<rparr>)"

text \<open>
  The catalogue's \<open>Biology Wizard\<close> (\<^verbatim>\<open>{"subject": "biology", "min_accuracy": 90}\<close>),
  the same criteria with a count and with an XP threshold added, and two histories of
  four Biology runs: three completed and one in progress, and all four completed.
\<close>

definition biologyWizard :: BadgeCriteria where
  "biologyWizard = noCriteria\<lparr>subject := Some ''biology'', min_accuracy := Some 90\<rparr>"

definition biologyWizardWithCount :: BadgeCriteria where
  "biologyWizardWithCount = biologyWizard\<lparr>experiments_completed := Some 3\<rparr>"

definition biologyWizardWithXp :: BadgeCriteria where
  "biologyWizardWithXp = biologyWizard\<lparr>xp_threshold := Some 1000\<rparr>"

definition threeOfFourBiology :: "ExperimentRun list" where
  "threeOfFourBiology =
     [completedRun ''Osmosis and Plasmolysis'' ''Biology'' 100,
      completedRun ''Blood Group Determination'' ''Biology'' 100,
      completedRun ''Osmosis and Plasmolysis'' ''Biology'' 100,
      startedRun ''Blood Group Determination'' ''Biology'']"

definition fourOfFourBiology :: "ExperimentRun list" where
  "fourOfFourBiology =
     [completedRun ''Osmosis and Plasmolysis'' ''Biology'' 100,
      completedRun ''Blood Group Determination'' ''Biology'' 100,
      completedRun ''Osmosis and Plasmolysis'' ''Biology'' 100,
      completedRun ''Blood Group Determination'' ''Biology'' 92]"

text \<open>
  For the streak: the calendar of a zone without offset (the day of an instant in
  milliseconds is the instant divided by the milliseconds of a day), a row completed at
  one o'clock of day \<open>d\<close>, and the instant of noon of day \<open>d\<close>.
\<close>

definition msPerDay :: int where
  "msPerDay = 86400000"

definition utcDay :: "int \<Rightarrow> int" where
  "utcDay t = t div msPerDay"

definition completedOn :: "int \<Rightarrow> RunRow" where
  "completedOn d = \<lparr>row_status = Some ''completed'', completed_at = Some (d * msPerDay + 3600000)\<rparr>"

definition noonOf :: "int \<Rightarrow> int" where
  "noonOf d = d * msPerDay + 43200000"

text \<open>
  Criteria of each type-based check with the type \<open>ohm's law\<close>, written with its
  apostrophe.
\<close>

definition ohmCount :: BadgeCriteria where
  "ohmCount = noCriteria\<lparr>experiment_type := Some ''ohm's law'', experiments_completed := Some 2\<rparr>"

definition ohmAccuracy :: BadgeCriteria where
  "ohmAccuracy = noCriteria\<lparr>experiment_type := Some ''ohm's law'', accuracy_threshold := Some 90\<rparr>"

definition ohmCompleted :: BadgeCriteria where
  "ohmCompleted = noCriteria\<lparr>experiment_type := Some ''ohm's law'', completed := Some True\<rparr>"

definition ohmRuns :: "ExperimentRun list" where
  "ohmRuns =
     [completedRun ''Ohms Law Laboratory'' ''Physics'' 95,
      completedRun ''OHM'S   LAW'' ''Physics'' 70,
      completedRun ''Acid-Base Titration'' ''Chemistry'' 100]"

text \<open>
  Criteria that carry the fields of two count blocks, the type \<open>ohms law\<close> and the
  subject \<open>physics\<close>, with two completed Physics runs of another experiment; and a
  catalogue of two badges with a history of one high-scored run.
\<close>

definition ohmOrPhysicsCount :: BadgeCriteria where
  "ohmOrPhysicsCount =
     noCriteria\<lparr>experiments_completed := Some 2, experiment_type := Some ''ohms law'',
       subject := Some ''physics''\<rparr>"

definition twoSlitRuns :: "ExperimentRun list" where
  "twoSlitRuns =
     [completedRun ''Young's Double Slit Experiment'' ''Physics'' 90,
      completedRun ''Young's Double Slit Experiment'' ''Physics'' 85]"

definition sharpAndStar :: "Badge list" where
  "sharpAndStar = [badgeOf ''b1'' ''Sharp'' countAndAccuracy, xpBadge ''b2'' ''Rising Star'' 100]"

definition oneHighRun :: "ExperimentRun list" where
  "oneHighRun = [completedRun ''Acid-Base Titration'' ''Chemistry'' 95]"

text \<open>The unfolding rules that evaluate the model on concrete data.\<close>

lemmas string_eval = normalizeExperimentName_def trim_def isSpace_def isQuote_def
  removeQuotes_def toLowerCase_def toLowerCase_char_def isUpper_def

lemmas criteria_eval = shouldAward_def check_experiments_completed_def
  check_experiment_type_def check_accuracy_threshold_def check_xp_threshold_def
  check_subject_min_accuracy_def sameSubject_def isCompleted_def truthy_str_def truthy_num_def
  str_of_def score_or_0_def name_or_empty_def subject_lower_opt_def subject_lower_or_empty_def
  criteria_subject_lower_def typeMatches_def maxAccuracy_def

lemmas fixture_eval = completedRun_def startedRun_def noCriteria_def badgeOf_def storeOf_def
  xpBadge_def threeXpBadges_def ohmsLawBeginner_def countAndAccuracy_def
  biologyWizard_def biologyWizardWithCount_def biologyWizardWithXp_def
  threeOfFourBiology_def fourOfFourBiology_def ohmCount_def ohmAccuracy_def ohmCompleted_def
  ohmRuns_def fiveLowRuns_def

lemmas streak_eval = calculateStreak_def completedDates_def completedOn_def noonOf_def
  utcDay_def msPerDay_def countBackwards.simps

lemmas store_eval = checkAndAwardBadges_def noOutcome_def list_or_empty_def

lemmas block_eval = block_count_by_type_def block_count_by_subject_def block_count_overall_def
  block_type_completion_def block_accuracy_threshold_def block_xp_threshold_def
  block_subject_mastery_def subjectMatches_def


subsection \<open>Name normalisation\<close>

text \<open>\<^verbatim>\<open>includes\<close> is the contiguous sublist relation of the library.\<close>

lemma startsWith_prefix: "startsWith s p \<longleftrightarrow> prefix p s"
  by (induction s p rule: startsWith.induct) auto

lemma includes_str_sublist: "includes_str s p \<longleftrightarrow> sublist p s"
  by (induction s) (auto simp: startsWith_prefix sublist_Cons_right)

lemma toLowerCase_char_not_upper: "\<not> isUpper (toLowerCase_char c)"
  by (auto simp: toLowerCase_char_def isUpper_def)

lemma toLowerCase_char_other: "\<not> isUpper c \<Longrightarrow> toLowerCase_char c = c"
  by (simp add: toLowerCase_char_def)

lemma space_not_upper: "isSpace c \<Longrightarrow> \<not> isUpper c"
  by (auto simp: isSpace_def isUpper_def)

lemma space_not_quote: "isSpace c \<Longrightarrow> \<not> isQuote c"
  by (auto simp: isSpace_def isQuote_def)

lemma set_replaceWs: "set (replaceWs s) \<subseteq> insert (CHR '' '') {c \<in> set s. \<not> isSpace c}"
proof (induction s rule: replaceWs.induct)
  case 1
  then show ?case by simp
next
  case (2 c cs)
  have "set (dropWhile isSpace cs) \<subseteq> set cs" by (simp add: set_dropWhileD subsetI)
  with 2 show ?case by (auto split: if_splits)
qed

lemma replaceWs_head:
  "xs = [] \<or> \<not> isSpace (hd xs) \<Longrightarrow> replaceWs xs = [] \<or> \<not> isSpace (hd (replaceWs xs))"
  by (cases xs) auto

lemma replaceWs_dropWhile_head:
  "replaceWs (dropWhile isSpace cs) = [] \<or> \<not> isSpace (hd (replaceWs (dropWhile isSpace cs)))"
  using hd_dropWhile [of isSpace cs] by (intro replaceWs_head) blast

lemma adjacentWs_Nil: "\<not> adjacentWs []"
  by (simp add: adjacentWs_def)

lemma adjacentWs_Cons:
  "adjacentWs (c # cs) \<longleftrightarrow> (isSpace c \<and> cs \<noteq> [] \<and> isSpace (hd cs)) \<or> adjacentWs cs"
  by (cases cs) (auto simp: adjacentWs_def sublist_Cons_right)

lemma replaceWs_not_adjacent: "\<not> adjacentWs (replaceWs s)"
proof (induction s rule: replaceWs.induct)
  case 1
  then show ?case by (simp add: adjacentWs_Nil)
next
  case (2 c cs)
  show ?case
  proof (cases "isSpace c")
    case True
    with 2 replaceWs_dropWhile_head [of cs] show ?thesis
      by (auto simp: adjacentWs_Cons)
  next
    case False
    with 2 show ?thesis by (simp add: adjacentWs_Cons)
  qed
qed

lemma sublist_trim: "sublist (trim s) s"
proof -
  have "sublist (dropWhile isSpace (rev (dropWhile isSpace s))) (rev (dropWhile isSpace s))"
    by simp
  moreover have "sublist (rev (dropWhile isSpace s)) (rev s)" by simp
  ultimately have "sublist (dropWhile isSpace (rev (dropWhile isSpace s))) (rev s)"
    by (rule sublist_order.order_trans)
  then show ?thesis by (simp add: trim_def sublist_rev_left)
qed

lemma set_trim: "set (trim s) \<subseteq> set s"
  by (auto simp: trim_def dest!: set_dropWhileD)

lemma trim_not_adjacent: "\<not> adjacentWs s \<Longrightarrow> \<not> adjacentWs (trim s)"
  unfolding adjacentWs_def using sublist_trim [of s] sublist_order.order_trans by blast

lemma trim_ends: "trim s = [] \<or> (\<not> isSpace (hd (trim s)) \<and> \<not> isSpace (last (trim s)))"
proof (cases "trim s = []")
  case True
  then show ?thesis by simp
next
  case False
  let ?t = "dropWhile isSpace s"
  let ?u = "dropWhile isSpace (rev ?t)"
  from False have u: "?u \<noteq> []" by (simp add: trim_def)
  then have "\<not> isSpace (hd ?u)" by (rule hd_dropWhile)
  with u have l: "\<not> isSpace (last (trim s))" by (simp add: trim_def last_rev)
  have t: "?t \<noteq> []"
  proof
    assume "?t = []"
    then have "?u = []" by (simp only: rev.simps dropWhile.simps)
    with u show False by simp
  qed
  then have ht: "\<not> isSpace (hd ?t)" by (rule hd_dropWhile)
  have "suffix ?u (rev ?t)" by (rule suffix_dropWhile)
  then obtain zs where "rev ?t = zs @ ?u" by (auto simp only: suffix_def)
  with u have "last ?u = last (rev ?t)" by (metis last_appendR)
  with t have "last ?u = hd ?t" by (simp add: last_rev)
  with u ht have "\<not> isSpace (hd (trim s))" by (simp add: trim_def hd_rev)
  with l show ?thesis by simp
qed

lemma toLowerCase_not_upper: "c \<in> set (toLowerCase s) \<Longrightarrow> \<not> isUpper c"
  using toLowerCase_char_not_upper by (auto simp: toLowerCase_def)

lemma normalize_chars:
  "list_all (\<lambda>c. \<not> isQuote c \<and> \<not> isUpper c \<and> (isSpace c \<longrightarrow> c = CHR '' ''))
     (normalizeExperimentName s)"
proof -
  let ?x = "removeQuotes (toLowerCase s)"
  have sp: "isSpace CHR '' ''" by (simp add: isSpace_def)
  have "\<not> isQuote c \<and> \<not> isUpper c \<and> (isSpace c \<longrightarrow> c = CHR '' '')"
    if "c \<in> set (replaceWs ?x)" for c
  proof -
    from that set_replaceWs [of ?x] have "c = CHR '' '' \<or> (c \<in> set ?x \<and> \<not> isSpace c)"
      by blast
    then show ?thesis
    proof
      assume "c = CHR '' ''"
      with sp space_not_upper space_not_quote show ?thesis by blast
    next
      assume a: "c \<in> set ?x \<and> \<not> isSpace c"
      then have "\<not> isQuote c" and "c \<in> set (toLowerCase s)"
        by (simp_all add: removeQuotes_def)
      with a toLowerCase_not_upper show ?thesis by blast
    qed
  qed
  then show ?thesis
    using set_trim [of "replaceWs ?x"]
    by (auto simp: normalizeExperimentName_def list_all_iff)
qed

lemma normalize_single_spaces: "\<not> sublist ''  '' (normalizeExperimentName s)"
proof -
  have "\<not> adjacentWs (normalizeExperimentName s)"
    unfolding normalizeExperimentName_def by (intro trim_not_adjacent replaceWs_not_adjacent)
  moreover have "isSpace CHR '' ''" by (simp add: isSpace_def)
  ultimately show ?thesis unfolding adjacentWs_def by blast
qed

lemma normalize_trimmed:
  "normalizeExperimentName s = []
   \<or> (\<not> isSpace (hd (normalizeExperimentName s)) \<and> \<not> isSpace (last (normalizeExperimentName s)))"
  unfolding normalizeExperimentName_def by (rule trim_ends)

text \<open>The name test, with the library's relation in place of the search.\<close>

lemma typeMatches_sublist:
  "typeMatches t r \<longleftrightarrow>
     sublist (normalizeExperimentName t) (normalizeExperimentName (name_or_empty r))"
  by (simp add: typeMatches_def includes_str_sublist)

lemma normalize_ohms_law: "normalizeExperimentName ''ohm's law'' = ''ohms law''"
  by (simp add: string_eval)

lemma normalize_ohms_law_laboratory:
  "normalizeExperimentName ''Ohms Law Laboratory'' = ''ohms law laboratory''"
  by (simp add: string_eval)

lemma normalize_ohms_law_upper: "normalizeExperimentName ''OHM'S   LAW'' = ''ohms law''"
  by (simp add: string_eval)

lemma normalize_titration:
  "normalizeExperimentName ''Acid-Base Titration'' = ''acid-base titration''"
  by (simp add: string_eval)

text \<open>The name test on the example runs.\<close>

lemma typeMatches_ohm_laboratory:
  "typeMatches ''ohm's law'' (completedRun ''Ohms Law Laboratory'' ''Physics'' 95)"
  by (simp add: typeMatches_def name_or_empty_def completedRun_def normalize_ohms_law
      normalize_ohms_law_laboratory)

lemma typeMatches_ohm_upper:
  "typeMatches ''ohm's law'' (completedRun ''OHM'S   LAW'' ''Physics'' 70)"
  by (simp add: typeMatches_def name_or_empty_def completedRun_def normalize_ohms_law
      normalize_ohms_law_upper)

lemma typeMatches_ohm_titration:
  "\<not> typeMatches ''ohm's law'' (completedRun ''Acid-Base Titration'' ''Chemistry'' 100)"
  by (simp add: typeMatches_def name_or_empty_def completedRun_def normalize_ohms_law
      normalize_titration)

lemma filter_ohmRuns:
  "filter (typeMatches ''ohm's law'') ohmRuns =
     [completedRun ''Ohms Law Laboratory'' ''Physics'' 95, completedRun ''OHM'S   LAW'' ''Physics'' 70]"
  by (simp add: ohmRuns_def typeMatches_ohm_laboratory typeMatches_ohm_upper
      typeMatches_ohm_titration)

subsection \<open>The streak loop\<close>

lemma set_completedDates: "set (completedDates dayOf rows) = activeDays dayOf rows"
  by (auto simp: completedDates_def activeDays_def split: option.splits) metis

lemma countBackwards_run:
  "\<exists>n. countBackwards dates d s = s + n \<and> runEndingAt (set dates) d n"
proof (induction dates d s rule: countBackwards.induct)
  case (1 dates d s)
  show ?case
  proof (cases "d \<in> set dates")
    case False
    then have "countBackwards dates d s = s + 0 \<and> runEndingAt (set dates) d 0"
      by (simp add: countBackwards.simps runEndingAt_def)
    then show ?thesis by blast
  next
    case True
    with 1 obtain n where n: "countBackwards dates (d - 1) (s + 1) = s + 1 + n"
      "runEndingAt (set dates) (d - 1) n" by blast
    have "runEndingAt (set dates) d (Suc n)"
      unfolding runEndingAt_def
    proof (intro conjI allI impI)
      fix k assume "k < Suc n"
      show "d - int k \<in> set dates"
      proof (cases k)
        case 0
        with True show ?thesis by simp
      next
        case (Suc j)
        with \<open>k < Suc n\<close> have "j < n" by simp
        with n(2) have "d - 1 - int j \<in> set dates" by (simp add: runEndingAt_def)
        with Suc show ?thesis by (simp add: algebra_simps)
      qed
    next
      from n(2) have "d - 1 - int n \<notin> set dates" by (simp add: runEndingAt_def)
      then show "d - int (Suc n) \<notin> set dates" by (simp add: algebra_simps)
    qed
    moreover have "countBackwards dates d s = s + Suc n"
      using True n(1) by (subst countBackwards.simps) simp
    ultimately show ?thesis by blast
  qed
qed

lemma runEndingAt_unique: "runEndingAt D a n \<Longrightarrow> runEndingAt D a m \<Longrightarrow> n = m"
  unfolding runEndingAt_def by (metis linorder_neqE_nat)

subsection \<open>The flag is the disjunction of the checks\<close>

text \<open>Each check keeps a flag that is already set, and otherwise decides on its own.\<close>

lemma check_experiments_completed_or:
  "check_experiments_completed c rs s \<longleftrightarrow> s \<or> check_experiments_completed c rs False"
  by (auto simp: check_experiments_completed_def Let_def split: option.splits)

lemma check_experiment_type_or:
  "check_experiment_type c ce s \<longleftrightarrow> s \<or> check_experiment_type c ce False"
  by (auto simp: check_experiment_type_def split: option.splits)

lemma check_accuracy_threshold_or:
  "check_accuracy_threshold c rs s \<longleftrightarrow> s \<or> check_accuracy_threshold c rs False"
  by (auto simp: check_accuracy_threshold_def Let_def split: option.splits)

lemma check_xp_threshold_or:
  "check_xp_threshold c xp s \<longleftrightarrow> s \<or> check_xp_threshold c xp False"
  by (auto simp: check_xp_threshold_def split: option.splits)

lemma check_subject_min_accuracy_or:
  "check_subject_min_accuracy c rs all s \<longleftrightarrow> s \<or> check_subject_min_accuracy c rs all False"
  by (auto simp: check_subject_min_accuracy_def Let_def split: option.splits)

lemma shouldAward_blocks:
  "shouldAward c xp runs ce \<longleftrightarrow>
     check_experiments_completed c (filter isCompleted runs) False
   \<or> check_experiment_type c ce False
   \<or> check_accuracy_threshold c (filter isCompleted runs) False
   \<or> check_xp_threshold c xp False
   \<or> check_subject_min_accuracy c (filter isCompleted runs) runs False"
  unfolding shouldAward_def Let_def
  using check_experiments_completed_or check_experiment_type_or check_accuracy_threshold_or
    check_xp_threshold_or check_subject_min_accuracy_or
  by metis

subsection \<open>The checks and the blocks of the specification\<close>

text \<open>
  Both subject tests of the code agree with the case-insensitive match once the criteria
  have a subject, and the maximum of the scores reaches a bound when one score does.
\<close>

lemma subject_or_empty_matches:
  "truthy_str (subject c) \<Longrightarrow>
     (Some (subject_lower_or_empty r) = criteria_subject_lower c)
       = subjectMatches (str_of (subject c)) r"
  by (auto simp: truthy_str_def str_of_def subject_lower_or_empty_def criteria_subject_lower_def
      subjectMatches_def toLowerCase_def split: option.splits)

lemma sameSubject_matches:
  "truthy_str (subject c) \<Longrightarrow> sameSubject c r = subjectMatches (str_of (subject c)) r"
  by (auto simp: truthy_str_def str_of_def sameSubject_def subject_lower_opt_def
      criteria_subject_lower_def subjectMatches_def split: option.splits)

lemma maxOfList_ge_iff: "xs \<noteq> [] \<Longrightarrow> a \<le> maxOfList xs \<longleftrightarrow> (\<exists>x \<in> set xs. a \<le> x)"
  by (induction xs rule: maxOfList.induct) (auto simp: le_max_iff_disj)

lemma maxAccuracy_ge_iff:
  "a \<le> maxAccuracy rs \<longleftrightarrow> (rs = [] \<and> a \<le> 0) \<or> list_ex (\<lambda>r. a \<le> score_or_0 r) rs"
  by (cases "rs = []") (auto simp: maxAccuracy_def maxOfList_ge_iff list_ex_iff)

lemma length_filter_filter_le:
  "length (filter P (filter Q xs)) \<le> length (filter P xs)"
  by (induction xs) auto

lemma all_completed_iff:
  "length (filter P (filter Q xs)) = length (filter P xs) \<longleftrightarrow> list_all Q (filter P xs)"
proof (induction xs)
  case Nil
  then show ?case by simp
next
  case (Cons x xs)
  have le: "length (filter P (filter Q xs)) \<le> length (filter P xs)"
    by (rule length_filter_filter_le)
  show ?case
  proof (cases "P x")
    case False
    with Cons show ?thesis by simp
  next
    case True
    show ?thesis
    proof (cases "Q x")
      case True
      with \<open>P x\<close> Cons show ?thesis by simp
    next
      case False
      with \<open>P x\<close> le show ?thesis by simp
    qed
  qed
qed

text \<open>
  The count check is the count by type, or else the count by subject, or else the
  overall count; each other check is one block.
\<close>

lemma check_experiments_completed_blocks:
  "check_experiments_completed c (filter isCompleted attempts) False \<longleftrightarrow>
     block_count_by_type c attempts
   \<or> (\<not> truthy_str (experiment_type c) \<and> block_count_by_subject c attempts)
   \<or> block_count_overall c attempts"
proof -
  have t: "filter (\<lambda>r. m \<le> score_or_0 r) (filter (typeMatches t) (filter isCompleted attempts))
      = filter (\<lambda>r. isCompleted r \<and> typeMatches t r \<and> m \<le> score_or_0 r) attempts" for m t
    by (simp add: conj_ac)
  have s: "truthy_str (subject c) \<Longrightarrow>
      filter (\<lambda>r. Some (subject_lower_or_empty r) = criteria_subject_lower c) (filter isCompleted attempts)
      = filter (\<lambda>r. isCompleted r \<and> subjectMatches (str_of (subject c)) r) attempts"
    by (simp add: subject_or_empty_matches conj_ac cong: filter_cong)
  show ?thesis
    using s
    by (auto simp: check_experiments_completed_def block_count_by_type_def
        block_count_by_subject_def block_count_overall_def Let_def t conj_ac
        split: option.splits)
qed

lemma check_experiment_type_block:
  "check_experiment_type c ce False \<longleftrightarrow> block_type_completion c ce"
  by (auto simp: check_experiment_type_def block_type_completion_def split: option.splits)

lemma check_accuracy_threshold_block:
  "check_accuracy_threshold c (filter isCompleted attempts) False \<longleftrightarrow>
     block_accuracy_threshold c attempts"
proof (cases "accuracy_threshold c")
  case None
  then show ?thesis
    by (simp add: check_accuracy_threshold_def block_accuracy_threshold_def)
next
  case (Some a)
  have t: "filter (typeMatches t) (filter isCompleted attempts)
      = filter (\<lambda>r. isCompleted r \<and> typeMatches t r) attempts" for t
    by (simp add: conj_ac)
  show ?thesis
  proof (cases "truthy_str (experiment_type c)")
    case True
    with Some show ?thesis
      by (simp add: check_accuracy_threshold_def block_accuracy_threshold_def Let_def
          maxAccuracy_ge_iff t)
  next
    case False
    with Some show ?thesis
      by (simp add: check_accuracy_threshold_def block_accuracy_threshold_def Let_def
          maxAccuracy_ge_iff)
  qed
qed

lemma check_xp_threshold_block:
  "check_xp_threshold c xp False \<longleftrightarrow> block_xp_threshold c xp"
  by (auto simp: check_xp_threshold_def block_xp_threshold_def split: option.splits)

lemma check_subject_min_accuracy_block:
  "check_subject_min_accuracy c (filter isCompleted attempts) attempts False \<longleftrightarrow>
     block_subject_mastery c attempts"
proof (cases "truthy_str (subject c)")
  case False
  then show ?thesis
    by (simp add: check_subject_min_accuracy_def block_subject_mastery_def split: option.splits)
next
  case True
  let ?S = "subjectMatches (str_of (subject c))"
  have ss: "sameSubject c = ?S"
    by (rule ext) (rule sameSubject_matches [OF True])
  have l: "length (filter ?S (filter isCompleted attempts)) = length (filter ?S attempts)
        \<longleftrightarrow> list_all isCompleted (filter ?S attempts)"
    by (rule all_completed_iff)
  have e: "0 < length (filter ?S attempts) \<longleftrightarrow> list_ex ?S attempts"
    by (auto simp: list_ex_iff filter_empty_conv)
  have f: "list_all isCompleted (filter ?S attempts) \<Longrightarrow>
      filter ?S (filter isCompleted attempts) = filter ?S attempts"
    by (auto simp: list_all_iff intro: filter_cong)
  show ?thesis
    using True l e f
    by (auto simp: check_subject_min_accuracy_def block_subject_mastery_def Let_def ss
        list_all_iff split: option.splits)
qed

lemma shouldAward_spec_blocks:
  "shouldAward c xp attempts ce \<longleftrightarrow>
     block_count_by_type c attempts
   \<or> (\<not> truthy_str (experiment_type c) \<and> block_count_by_subject c attempts)
   \<or> block_count_overall c attempts
   \<or> block_type_completion c ce
   \<or> block_accuracy_threshold c attempts
   \<or> block_xp_threshold c xp
   \<or> block_subject_mastery c attempts"
  using shouldAward_blocks [of c xp attempts ce]
  by (simp only: check_experiments_completed_blocks check_experiment_type_block
      check_accuracy_threshold_block check_xp_threshold_block check_subject_min_accuracy_block
      disj_assoc)


lemma normalize_ohms_law_plain: "normalizeExperimentName ''ohms law'' = ''ohms law''"
  by (simp add: string_eval)

lemma normalize_double_slit:
  "normalizeExperimentName ''Young's Double Slit Experiment'' = ''youngs double slit experiment''"
  by (simp add: string_eval)

lemma lower_physics: "toLowerCase ''Physics'' = ''physics''" "toLowerCase ''physics'' = ''physics''"
  by (simp_all add: toLowerCase_def toLowerCase_char_def isUpper_def)

lemma distinct_ids_eq:
  "distinct (map badge_id badges) \<Longrightarrow> b \<in> set badges \<Longrightarrow> b' \<in> set badges
   \<Longrightarrow> badge_id b' = badge_id b \<Longrightarrow> b' = b"
  by (meson distinct_map inj_on_def)

subsection \<open>The loop as two filters\<close>

text \<open>
  The loop sends one insert request per qualifying badge, in catalogue order, and returns
  the names of those whose insert raised no error.
\<close>

lemma awardLoop_filter:
  "awardLoop st uid xp ce earned runs bs out =
     \<lparr>awardedBadgeNames = awardedBadgeNames out @
        map badge_name (filter (\<lambda>b. qualifies earned xp runs ce b
                                  \<and> insert_user_badge st uid (badge_id b) = None) bs),
      insertRequests = insertRequests out @
        map (\<lambda>b. (uid, badge_id b)) (filter (qualifies earned xp runs ce) bs)\<rparr>"
  by (induction bs arbitrary: out) (auto simp: qualifies_def Let_def split: option.splits)

lemma checkAndAwardBadges_fetched:
  assumes "resp_error (select_badges st) = None"
    and "resp_data (select_badges st) = Some badges"
    and "resp_error (select_user_badges st uid) = None"
    and "resp_error (select_experiment_runs st uid) = None"
    and "earned = set (list_or_empty (resp_data (select_user_badges st uid)))"
    and "runs = list_or_empty (resp_data (select_experiment_runs st uid))"
  shows "checkAndAwardBadges st uid xp ce =
     \<lparr>awardedBadgeNames =
        map badge_name (filter (\<lambda>b. qualifies earned xp runs ce b
                                  \<and> insert_user_badge st uid (badge_id b) = None) badges),
      insertRequests =
        map (\<lambda>b. (uid, badge_id b)) (filter (qualifies earned xp runs ce) badges)\<rparr>"
  using assms
  by (simp add: checkAndAwardBadges_def Let_def awardLoop_filter noOutcome_def list_or_empty_def)

lemma checkAndAwardBadges_fetch_failed:
  assumes "resp_error (select_badges st) \<noteq> None \<or> resp_data (select_badges st) = None
         \<or> resp_error (select_user_badges st uid) \<noteq> None
         \<or> resp_error (select_experiment_runs st uid) \<noteq> None"
  shows "checkAndAwardBadges st uid xp ce = noOutcome"
  using assms by (auto simp: checkAndAwardBadges_def Let_def)

subsection \<open>The run that was just completed\<close>

text \<open>
  \<open>completedExperiment\<close> is read by the second check only, and that check is skipped
  for criteria without a truthy \<open>experiment_type\<close>.
\<close>

lemma check_experiment_type_no_type:
  "\<not> truthy_str (experiment_type c) \<Longrightarrow> check_experiment_type c ce s = s"
  by (auto simp: check_experiment_type_def split: option.splits)

lemma shouldAward_no_type:
  "\<not> truthy_str (experiment_type c) \<Longrightarrow> shouldAward c xp runs ce1 = shouldAward c xp runs ce2"
  by (simp add: shouldAward_def Let_def check_experiment_type_no_type)

lemma awardLoop_no_type:
  assumes "list_all (\<lambda>b. \<not> truthy_str (experiment_type (criteria b))) bs"
  shows "awardLoop st uid xp ce1 earned runs bs out = awardLoop st uid xp ce2 earned runs bs out"
  using assms
proof (induction bs arbitrary: out)
  case Nil
  then show ?case by simp
next
  case (Cons b bs)
  then have "shouldAward (criteria b) xp runs ce1 = shouldAward (criteria b) xp runs ce2"
    using shouldAward_no_type by simp
  with Cons show ?case by (simp add: Let_def split: option.splits)
qed

text \<open>No insert is requested for a badge id of the earned set.\<close>

lemma requests_not_earned:
  "list_all (\<lambda>(u, i). i \<notin> set (list_or_empty (resp_data (select_user_badges st uid))))
     (insertRequests (checkAndAwardBadges st uid xp ce))"
  by (auto simp: checkAndAwardBadges_def Let_def awardLoop_filter noOutcome_def list_all_iff qualifies_def)

text \<open>For criteria of the mastery shape the flag is the mastery check alone.\<close>

lemma onlySubjectMastery_shouldAward:
  assumes "onlySubjectMastery c"
  shows "shouldAward c xp runs ce = check_subject_min_accuracy c (filter isCompleted runs) runs False"
  using assms
  by (auto simp: onlySubjectMastery_def shouldAward_def Let_def check_experiments_completed_def
      check_experiment_type_no_type check_accuracy_threshold_def check_xp_threshold_def)

subsection \<open>Properties of the badge check\<close>

text \<open>
  Claim C1, as the code has it. The claim says that a badge is awarded when any one of
  the applicable criterion blocks of its criteria holds. That fails for the three count
  blocks, which the code runs as alternatives (\<^verbatim>\<open>if / else if / else\<close>): for
  criteria with \<open>experiments_completed\<close>, \<open>experiment_type\<close> and \<open>subject\<close> only
  the count by type is evaluated. With two completed Physics runs of another experiment
  the count by subject holds, the count by type does not, and the badge is not awarded.
\<close>

theorem count_by_subject_skipped_when_type_present:
  "block_count_by_subject ohmOrPhysicsCount twoSlitRuns
   \<and> \<not> block_count_by_type ohmOrPhysicsCount twoSlitRuns
   \<and> \<not> shouldAward ohmOrPhysicsCount 0 twoSlitRuns None
   \<and> checkAndAwardBadges
        (storeOf [badgeOf ''b-phys'' ''Physics Pair'' ohmOrPhysicsCount] [] twoSlitRuns [])
        ''u'' 0 None
      = \<lparr>awardedBadgeNames = [], insertRequests = []\<rparr>"
proof -
  have a: "block_count_by_subject ohmOrPhysicsCount twoSlitRuns"
    by (simp add: block_eval ohmOrPhysicsCount_def twoSlitRuns_def noCriteria_def completedRun_def
        truthy_str_def str_of_def isCompleted_def lower_physics)
  have t: "\<not> block_count_by_type ohmOrPhysicsCount twoSlitRuns"
    by (simp add: block_eval ohmOrPhysicsCount_def twoSlitRuns_def noCriteria_def completedRun_def
        truthy_str_def str_of_def isCompleted_def typeMatches_def name_or_empty_def
        normalize_ohms_law_plain normalize_double_slit)
  have b: "\<not> shouldAward ohmOrPhysicsCount 0 twoSlitRuns None"
    by (simp add: criteria_eval ohmOrPhysicsCount_def twoSlitRuns_def noCriteria_def completedRun_def
        normalize_ohms_law_plain normalize_double_slit lower_physics)
  have c: "checkAndAwardBadges
        (storeOf [badgeOf ''b-phys'' ''Physics Pair'' ohmOrPhysicsCount] [] twoSlitRuns [])
        ''u'' 0 None
      = \<lparr>awardedBadgeNames = [], insertRequests = []\<rparr>"
    using b by (simp add: store_eval storeOf_def badgeOf_def)
  show ?thesis using a t b c by (intro conjI)
qed

text \<open>
  Claim C1, amended. For a badge of the fetched catalogue that is not already earned,
  the flag \<open>shouldAward\<close> is set exactly when one of these holds: the count by type;
  the count by subject, for criteria without a non-empty \<open>experiment_type\<close>; the
  overall count; the type completion; the accuracy threshold; the XP threshold; the
  subject mastery. One of them is enough, whatever the others say. When the flag is set
  the insert request for the badge is sent, and the badge's name is returned when that
  insert raises no error; when the flag is not set and the ids of the catalogue are
  distinct, no insert is sent for the badge.
\<close>

theorem shouldAward_any_block:
  assumes "resp_error (select_badges st) = None"
    and "resp_data (select_badges st) = Some badges"
    and "resp_error (select_user_badges st uid) = None"
    and "resp_error (select_experiment_runs st uid) = None"
    and "attempts = list_or_empty (resp_data (select_experiment_runs st uid))"
    and "b \<in> set badges"
    and "badge_id b \<notin> set (list_or_empty (resp_data (select_user_badges st uid)))"
  shows "(shouldAward (criteria b) xp attempts ce \<longleftrightarrow>
            block_count_by_type (criteria b) attempts
          \<or> (\<not> truthy_str (experiment_type (criteria b))
              \<and> block_count_by_subject (criteria b) attempts)
          \<or> block_count_overall (criteria b) attempts
          \<or> block_type_completion (criteria b) ce
          \<or> block_accuracy_threshold (criteria b) attempts
          \<or> block_xp_threshold (criteria b) xp
          \<or> block_subject_mastery (criteria b) attempts)
       \<and> (shouldAward (criteria b) xp attempts ce
            \<longrightarrow> (uid, badge_id b) \<in> set (insertRequests (checkAndAwardBadges st uid xp ce)))
       \<and> (shouldAward (criteria b) xp attempts ce
            \<and> insert_user_badge st uid (badge_id b) = None
            \<longrightarrow> badge_name b \<in> set (awardedBadgeNames (checkAndAwardBadges st uid xp ce)))
       \<and> (\<not> shouldAward (criteria b) xp attempts ce \<and> distinct (map badge_id badges)
            \<longrightarrow> (uid, badge_id b) \<notin> set (insertRequests (checkAndAwardBadges st uid xp ce)))"
proof -
  let ?earned = "set (list_or_empty (resp_data (select_user_badges st uid)))"
  have out: "checkAndAwardBadges st uid xp ce =
     \<lparr>awardedBadgeNames =
        map badge_name (filter (\<lambda>b. qualifies ?earned xp attempts ce b
           \<and> insert_user_badge st uid (badge_id b) = None) badges),
      insertRequests =
        map (\<lambda>b. (uid, badge_id b)) (filter (qualifies ?earned xp attempts ce) badges)\<rparr>"
    using checkAndAwardBadges_fetched [OF assms(1-4) refl assms(5)] .
  have q: "qualifies ?earned xp attempts ce b \<longleftrightarrow> shouldAward (criteria b) xp attempts ce"
    using assms(7) by (simp add: qualifies_def)
  have req: "(uid, badge_id b) \<in> set (insertRequests (checkAndAwardBadges st uid xp ce))"
    if "shouldAward (criteria b) xp attempts ce"
    using that q assms(6) unfolding out by force
  have nm: "badge_name b \<in> set (awardedBadgeNames (checkAndAwardBadges st uid xp ce))"
    if "shouldAward (criteria b) xp attempts ce" "insert_user_badge st uid (badge_id b) = None"
    using that q assms(6) unfolding out by force
  have nreq: "(uid, badge_id b) \<notin> set (insertRequests (checkAndAwardBadges st uid xp ce))"
    if n: "\<not> shouldAward (criteria b) xp attempts ce" and d: "distinct (map badge_id badges)"
  proof
    assume "(uid, badge_id b) \<in> set (insertRequests (checkAndAwardBadges st uid xp ce))"
    then obtain b' where b': "b' \<in> set badges" "qualifies ?earned xp attempts ce b'"
      "badge_id b' = badge_id b"
      unfolding out by auto
    with d assms(6) have "b' = b" by (metis distinct_ids_eq)
    with b'(2) q n show False by simp
  qed
  show ?thesis
    using shouldAward_spec_blocks [of "criteria b" xp attempts ce] req nm nreq by blast
qed


text \<open>
  The instances. In a catalogue of a badge with both \<open>experiments_completed = 5\<close> and
  \<open>accuracy_threshold = 90\<close> and a badge with \<open>xp_threshold = 100\<close>, a user with one
  completed run scored 95 and 150 XP is awarded both, the first on accuracy alone and the
  second on XP alone; with 50 XP the second is not awarded and no insert is sent for it.
  With five low-scored runs the first holds on the count alone. A completion badge holds
  on the just completed run alone, and a mastery badge on the subject's runs alone.
\<close>

theorem shouldAward_any_block_witness:
  "resp_error (select_badges (storeOf sharpAndStar [] oneHighRun [])) = None
   \<and> resp_data (select_badges (storeOf sharpAndStar [] oneHighRun [])) = Some sharpAndStar
   \<and> resp_error (select_user_badges (storeOf sharpAndStar [] oneHighRun []) ''u'') = None
   \<and> resp_error (select_experiment_runs (storeOf sharpAndStar [] oneHighRun []) ''u'') = None
   \<and> oneHighRun
       = list_or_empty (resp_data (select_experiment_runs (storeOf sharpAndStar [] oneHighRun []) ''u''))
   \<and> xpBadge ''b2'' ''Rising Star'' 100 \<in> set sharpAndStar
   \<and> ''b2'' \<notin> set (list_or_empty (resp_data
         (select_user_badges (storeOf sharpAndStar [] oneHighRun []) ''u'')))
   \<and> distinct (map badge_id sharpAndStar)
   \<and> block_xp_threshold (criteria (xpBadge ''b2'' ''Rising Star'' 100)) 150
   \<and> \<not> block_accuracy_threshold (criteria (xpBadge ''b2'' ''Rising Star'' 100)) oneHighRun
   \<and> shouldAward (criteria (xpBadge ''b2'' ''Rising Star'' 100)) 150 oneHighRun None
   \<and> ''Rising Star'' \<in> set (awardedBadgeNames
         (checkAndAwardBadges (storeOf sharpAndStar [] oneHighRun []) ''u'' 150 None))
   \<and> \<not> block_xp_threshold (criteria (xpBadge ''b2'' ''Rising Star'' 100)) 50
   \<and> \<not> shouldAward (criteria (xpBadge ''b2'' ''Rising Star'' 100)) 50 oneHighRun None
   \<and> (''u'', ''b2'') \<notin> set (insertRequests
         (checkAndAwardBadges (storeOf sharpAndStar [] oneHighRun []) ''u'' 50 None))
   \<and> checkAndAwardBadges (storeOf sharpAndStar [] oneHighRun []) ''u'' 150 None
       = \<lparr>awardedBadgeNames = [''Sharp'', ''Rising Star''],
          insertRequests = [(''u'', ''b1''), (''u'', ''b2'')]\<rparr>
   \<and> checkAndAwardBadges (storeOf sharpAndStar [] oneHighRun []) ''u'' 50 None
       = \<lparr>awardedBadgeNames = [''Sharp''], insertRequests = [(''u'', ''b1'')]\<rparr>
   \<and> block_accuracy_threshold countAndAccuracy oneHighRun
   \<and> \<not> block_count_overall countAndAccuracy oneHighRun
   \<and> shouldAward countAndAccuracy 0 oneHighRun None
   \<and> block_count_overall countAndAccuracy fiveLowRuns
   \<and> \<not> block_accuracy_threshold countAndAccuracy fiveLowRuns
   \<and> shouldAward countAndAccuracy 0 fiveLowRuns None
   \<and> block_type_completion ohmCompleted
         (Some (completedRun ''Ohms Law Laboratory'' ''Physics'' 95))
   \<and> shouldAward ohmCompleted 0 [] (Some (completedRun ''Ohms Law Laboratory'' ''Physics'' 95))
   \<and> \<not> shouldAward ohmCompleted 0 [] None
   \<and> block_subject_mastery biologyWizard fourOfFourBiology
   \<and> shouldAward biologyWizard 0 fourOfFourBiology None
   \<and> \<not> block_subject_mastery biologyWizard threeOfFourBiology
   \<and> \<not> shouldAward biologyWizard 0 threeOfFourBiology None"
proof -
  let ?st = "storeOf sharpAndStar [] oneHighRun []"
  let ?star = "xpBadge ''b2'' ''Rising Star'' 100"
  have h: "resp_error (select_badges ?st) = None"
    "resp_data (select_badges ?st) = Some sharpAndStar"
    "resp_error (select_user_badges ?st ''u'') = None"
    "resp_error (select_experiment_runs ?st ''u'') = None"
    "oneHighRun = list_or_empty (resp_data (select_experiment_runs ?st ''u''))"
    "?star \<in> set sharpAndStar"
    "badge_id ?star \<notin> set (list_or_empty (resp_data (select_user_badges ?st ''u'')))"
    by (simp_all add: storeOf_def list_or_empty_def sharpAndStar_def xpBadge_def badgeOf_def)
  have id: "badge_id ?star = ''b2''" "badge_name ?star = ''Rising Star''"
    by (simp_all add: xpBadge_def badgeOf_def)
  have d: "distinct (map badge_id sharpAndStar)"
    by (simp add: sharpAndStar_def xpBadge_def badgeOf_def)
  have ok: "insert_user_badge ?st ''u'' (badge_id ?star) = None"
    by (simp add: storeOf_def)
  have bx: "block_xp_threshold (criteria ?star) 150"
    "\<not> block_accuracy_threshold (criteria ?star) oneHighRun"
    "\<not> block_xp_threshold (criteria ?star) 50"
    by (simp_all add: block_eval xpBadge_def badgeOf_def noCriteria_def)
  have n50: "\<not> shouldAward (criteria ?star) 50 oneHighRun None"
    by (simp add: criteria_eval xpBadge_def badgeOf_def noCriteria_def)
  have sx: "shouldAward (criteria ?star) 150 oneHighRun None"
    using shouldAward_any_block [OF h, of 150 None] bx(1) by blast
  have nm: "badge_name ?star \<in> set (awardedBadgeNames (checkAndAwardBadges ?st ''u'' 150 None))"
    using shouldAward_any_block [OF h, of 150 None] sx ok by blast
  have nr: "(''u'', badge_id ?star) \<notin> set (insertRequests (checkAndAwardBadges ?st ''u'' 50 None))"
    using shouldAward_any_block [OF h, of 50 None] n50 d by blast
  have out: "checkAndAwardBadges ?st ''u'' 150 None
       = \<lparr>awardedBadgeNames = [''Sharp'', ''Rising Star''],
          insertRequests = [(''u'', ''b1''), (''u'', ''b2'')]\<rparr>"
    "checkAndAwardBadges ?st ''u'' 50 None
       = \<lparr>awardedBadgeNames = [''Sharp''], insertRequests = [(''u'', ''b1'')]\<rparr>"
    by (simp_all add: store_eval fixture_eval criteria_eval sharpAndStar_def oneHighRun_def)
  have acc: "block_accuracy_threshold countAndAccuracy oneHighRun"
    "\<not> block_count_overall countAndAccuracy oneHighRun"
    "block_count_overall countAndAccuracy fiveLowRuns"
    "\<not> block_accuracy_threshold countAndAccuracy fiveLowRuns"
    by (simp_all add: block_eval countAndAccuracy_def noCriteria_def oneHighRun_def
        fiveLowRuns_def completedRun_def truthy_str_def isCompleted_def score_or_0_def)
  have sa: "shouldAward countAndAccuracy 0 oneHighRun None"
    "shouldAward countAndAccuracy 0 fiveLowRuns None"
    by (simp_all add: criteria_eval countAndAccuracy_def noCriteria_def oneHighRun_def
        fiveLowRuns_def completedRun_def)
  have lab: "isCompleted (completedRun ''Ohms Law Laboratory'' ''Physics'' 95)"
    by (simp add: isCompleted_def completedRun_def)
  have tcb: "block_type_completion ohmCompleted
         (Some (completedRun ''Ohms Law Laboratory'' ''Physics'' 95))"
    using typeMatches_ohm_laboratory lab
    by (simp add: block_type_completion_def ohmCompleted_def noCriteria_def truthy_str_def
        str_of_def)
  have tcs: "shouldAward ohmCompleted 0 [] (Some (completedRun ''Ohms Law Laboratory'' ''Physics'' 95))"
    "\<not> shouldAward ohmCompleted 0 [] None"
    using typeMatches_ohm_laboratory lab
    by (simp_all add: shouldAward_def check_experiments_completed_def check_experiment_type_def
        check_accuracy_threshold_def check_xp_threshold_def check_subject_min_accuracy_def
        ohmCompleted_def noCriteria_def truthy_str_def str_of_def)
  have lb: "toLowerCase ''Biology'' = ''biology''" "toLowerCase ''biology'' = ''biology''"
    by (simp_all add: toLowerCase_def toLowerCase_char_def isUpper_def)
  have mb: "block_subject_mastery biologyWizard fourOfFourBiology"
    "\<not> block_subject_mastery biologyWizard threeOfFourBiology"
    by (simp_all add: block_eval biologyWizard_def noCriteria_def fourOfFourBiology_def
        threeOfFourBiology_def completedRun_def startedRun_def truthy_str_def str_of_def
        isCompleted_def score_or_0_def lb)
  have ms: "shouldAward biologyWizard 0 fourOfFourBiology None"
    "\<not> shouldAward biologyWizard 0 threeOfFourBiology None"
    by (simp_all add: criteria_eval biologyWizard_def noCriteria_def fourOfFourBiology_def
        threeOfFourBiology_def completedRun_def startedRun_def lb)
  show ?thesis
    using h(1-6) h(7) [unfolded id] d bx(1,2) sx nm [unfolded id] bx(3) n50 nr [unfolded id]
      out acc(1,2) sa(1) acc(3,4) sa(2) tcb tcs mb(1) ms(1) mb(2) ms(2)
    by (intro conjI)
qed

text \<open>
  Claim C8. When the fetch of the badge definitions, of the user's earned badge ids or
  of the attempt history fails, the call returns the empty list and sends no insert. When
  the three fetches succeed, an insert is sent for every badge that is not yet earned
  and whose flag is set, in catalogue order, and the returned names are those of the
  badges among them whose insert raised no error: a failed insert drops that one badge
  and the badges after it are still evaluated.
\<close>

theorem fetch_failure_aborts_insert_failure_skips:
  "(resp_error (select_badges st) \<noteq> None \<or> resp_data (select_badges st) = None
      \<or> resp_error (select_user_badges st uid) \<noteq> None
      \<or> resp_error (select_experiment_runs st uid) \<noteq> None
    \<longrightarrow> awardedBadgeNames (checkAndAwardBadges st uid xp ce) = []
        \<and> insertRequests (checkAndAwardBadges st uid xp ce) = [])
   \<and> (resp_error (select_badges st) = None \<and> resp_data (select_badges st) = Some badges
      \<and> resp_error (select_user_badges st uid) = None
      \<and> resp_error (select_experiment_runs st uid) = None
      \<and> earned = set (list_or_empty (resp_data (select_user_badges st uid)))
      \<and> runs = list_or_empty (resp_data (select_experiment_runs st uid))
    \<longrightarrow> insertRequests (checkAndAwardBadges st uid xp ce) =
          map (\<lambda>b. (uid, badge_id b))
            (filter (\<lambda>b. badge_id b \<notin> earned \<and> shouldAward (criteria b) xp runs ce) badges)
        \<and> awardedBadgeNames (checkAndAwardBadges st uid xp ce) =
          map badge_name
            (filter (\<lambda>b. badge_id b \<notin> earned \<and> shouldAward (criteria b) xp runs ce
                       \<and> insert_user_badge st uid (badge_id b) = None) badges))"
proof -
  have a: "awardedBadgeNames (checkAndAwardBadges st uid xp ce) = []
           \<and> insertRequests (checkAndAwardBadges st uid xp ce) = []"
    if "resp_error (select_badges st) \<noteq> None \<or> resp_data (select_badges st) = None
         \<or> resp_error (select_user_badges st uid) \<noteq> None
         \<or> resp_error (select_experiment_runs st uid) \<noteq> None"
    using checkAndAwardBadges_fetch_failed [OF that] by (simp add: noOutcome_def)
  have b: "insertRequests (checkAndAwardBadges st uid xp ce) =
          map (\<lambda>b. (uid, badge_id b))
            (filter (\<lambda>b. badge_id b \<notin> earned \<and> shouldAward (criteria b) xp runs ce) badges)
        \<and> awardedBadgeNames (checkAndAwardBadges st uid xp ce) =
          map badge_name
            (filter (\<lambda>b. badge_id b \<notin> earned \<and> shouldAward (criteria b) xp runs ce
                       \<and> insert_user_badge st uid (badge_id b) = None) badges)"
    if "resp_error (select_badges st) = None" "resp_data (select_badges st) = Some badges"
      "resp_error (select_user_badges st uid) = None"
      "resp_error (select_experiment_runs st uid) = None"
      "earned = set (list_or_empty (resp_data (select_user_badges st uid)))"
      "runs = list_or_empty (resp_data (select_experiment_runs st uid))"
    using checkAndAwardBadges_fetched [OF that, of xp ce] by (simp add: qualifies_def [abs_def])
  show ?thesis using a b by blast
qed

text \<open>
  The instances: with the fetch of the runs failing, a user with 500 XP gets nothing; with
  the insert of the second of three qualifying badges failing, the first and the third
  are returned and all three inserts were sent.
\<close>

theorem fetch_failure_aborts_insert_failure_skips_witness:
  "resp_error (select_experiment_runs
      ((storeOf threeXpBadges [] [] [])\<lparr>select_experiment_runs :=
          (\<lambda>u. \<lparr>resp_data = None, resp_error = Some ''timeout''\<rparr>)\<rparr>) ''u'') \<noteq> None
   \<and> checkAndAwardBadges
      ((storeOf threeXpBadges [] [] [])\<lparr>select_experiment_runs :=
          (\<lambda>u. \<lparr>resp_data = None, resp_error = Some ''timeout''\<rparr>)\<rparr>) ''u'' 500 None
      = \<lparr>awardedBadgeNames = [], insertRequests = []\<rparr>
   \<and> resp_error (select_badges (storeOf threeXpBadges [] [] [''b2''])) = None
   \<and> insert_user_badge (storeOf threeXpBadges [] [] [''b2'']) ''u'' ''b2'' \<noteq> None
   \<and> checkAndAwardBadges (storeOf threeXpBadges [] [] [''b2'']) ''u'' 500 None
      = \<lparr>awardedBadgeNames = [''Rising Star'', ''Legend''],
         insertRequests = [(''u'', ''b1''), (''u'', ''b2''), (''u'', ''b3'')]\<rparr>"
  using fetch_failure_aborts_insert_failure_skips
    [of "(storeOf threeXpBadges [] [] [])\<lparr>select_experiment_runs :=
          (\<lambda>u. \<lparr>resp_data = None, resp_error = Some ''timeout''\<rparr>)\<rparr>" "''u''" 500 None "[]" "{}" "[]"]
    fetch_failure_aborts_insert_failure_skips
    [of "storeOf threeXpBadges [] [] [''b2'']" "''u''" 500 None threeXpBadges "{}" "[]"]
  by (simp add: store_eval fixture_eval criteria_eval)

text \<open>
  Claim C9, as the code has it. The claim says that the result never depends on the
  optional \<open>completedExperiment\<close>. That fails: the catalogue's badge
  \<open>Ohm's Law Beginner\<close> (\<open>experiment_type\<close> with \<open>completed = true\<close>) is awarded
  when the just completed Ohm's law run is passed, and is not awarded by the same call
  without it, although the run is in the fetched history.
\<close>

theorem justCompleted_decides_type_completion:
  "awardedBadgeNames (checkAndAwardBadges
       (storeOf [ohmsLawBeginner] [] [completedRun ''Ohm's Law Laboratory'' ''Physics'' 80] [])
       ''u'' 120 (Some (completedRun ''Ohm's Law Laboratory'' ''Physics'' 80)))
     = [''Ohm's Law Beginner'']
   \<and> awardedBadgeNames (checkAndAwardBadges
       (storeOf [ohmsLawBeginner] [] [completedRun ''Ohm's Law Laboratory'' ''Physics'' 80] [])
       ''u'' 120 None) = []"
  by (simp add: store_eval fixture_eval criteria_eval string_eval)

text \<open>
  Claim C9, amended. \<open>completedExperiment\<close> is read by the type completion check
  only: the flag of a badge with it is the flag without it or that check, so passing it
  can only add awards. For criteria without a non-empty \<open>experiment_type\<close> the flag
  is the same for every value of \<open>completedExperiment\<close>, present or absent, and when no
  definition of the fetched catalogue carries a non-empty \<open>experiment_type\<close> the whole
  outcome of the call (returned names and inserts) is the same.
\<close>

theorem justCompleted_irrelevant_without_type:
  "(shouldAward c xp runs ce \<longleftrightarrow>
      shouldAward c xp runs None \<or> check_experiment_type c ce False)
   \<and> (\<not> truthy_str (experiment_type c)
      \<longrightarrow> shouldAward c xp runs cea = shouldAward c xp runs ceb)
   \<and> (list_all (\<lambda>b. \<not> truthy_str (experiment_type (criteria b)))
         (list_or_empty (resp_data (select_badges st)))
      \<longrightarrow> checkAndAwardBadges st uid xp cea = checkAndAwardBadges st uid xp ceb)"
proof -
  have "check_experiment_type c None False = False"
    by (simp add: check_experiment_type_def)
  then have a: "shouldAward c xp runs ce \<longleftrightarrow>
      shouldAward c xp runs None \<or> check_experiment_type c ce False"
    using shouldAward_blocks [of c xp runs ce] shouldAward_blocks [of c xp runs None]
    by blast
  have b: "shouldAward c xp runs cea = shouldAward c xp runs ceb"
    if "\<not> truthy_str (experiment_type c)"
    using that by (rule shouldAward_no_type)
  have c: "checkAndAwardBadges st uid xp cea = checkAndAwardBadges st uid xp ceb"
    if "list_all (\<lambda>b. \<not> truthy_str (experiment_type (criteria b)))
         (list_or_empty (resp_data (select_badges st)))"
    using that
      awardLoop_no_type [of "list_or_empty (resp_data (select_badges st))" st uid xp cea _ _ _ ceb]
    by (simp add: checkAndAwardBadges_def Let_def)
  show ?thesis using a b c by blast
qed

text \<open>
  The instance: with the three XP badges as the catalogue and 250 XP, the call returns
  the first two badges with and without a just completed run.
\<close>

theorem justCompleted_irrelevant_without_type_witness:
  "list_all (\<lambda>b. \<not> truthy_str (experiment_type (criteria b)))
     (list_or_empty (resp_data (select_badges (storeOf threeXpBadges [] [] []))))
   \<and> checkAndAwardBadges (storeOf threeXpBadges [] [] []) ''u'' 250
        (Some (completedRun ''Ohm's Law Laboratory'' ''Physics'' 80))
     = checkAndAwardBadges (storeOf threeXpBadges [] [] []) ''u'' 250 None
   \<and> awardedBadgeNames (checkAndAwardBadges (storeOf threeXpBadges [] [] []) ''u'' 250 None)
     = [''Rising Star'', ''Scholar'']"
  using justCompleted_irrelevant_without_type
    [where c = noCriteria and xp = 250 and runs = "[]" and ce = None
       and cea = "Some (completedRun ''Ohm's Law Laboratory'' ''Physics'' 80)" and ceb = None
       and st = "storeOf threeXpBadges [] [] []" and uid = "''u''"]
  by (simp add: store_eval fixture_eval criteria_eval)

text \<open>
  Claim C2, as the code has it. The claim says that a second call with no new attempts,
  whose earned set includes every id that the first call awarded, awards nothing. That
  fails when an insert of the first call failed: the badge was not awarded, so it is not
  in the earned set, and the second call evaluates it again and awards it once the insert
  goes through.
\<close>

theorem failed_insert_retried_by_second_call:
  "awardedBadgeNames (checkAndAwardBadges
      (storeOf [xpBadge ''b1'' ''Rising Star'' 100] [] [] [''b1'']) ''u'' 250 None) = []
   \<and> awardedBadgeIds (storeOf [xpBadge ''b1'' ''Rising Star'' 100] [] [] [''b1''])
       (checkAndAwardBadges
          (storeOf [xpBadge ''b1'' ''Rising Star'' 100] [] [] [''b1'']) ''u'' 250 None) = []
   \<and> awardedBadgeNames (checkAndAwardBadges
      (storeOf [xpBadge ''b1'' ''Rising Star'' 100] [] [] []) ''u'' 250 None) = [''Rising Star'']"
  by (simp add: store_eval fixture_eval criteria_eval awardedBadgeIds_def)

text \<open>
  Claim C2, amended. No insert is ever requested for a badge id of the earned set, so an
  earned badge is never awarded again. And when the first call fetched its data and
  every insert that it sent succeeded, a second call on the same catalogue and the same
  history, with the same XP and the same just completed run, whose earned set holds the
  ids earned before and the ids awarded by the first call, awards nothing and sends no
  insert.
\<close>

theorem earned_skipped_second_call_awards_nothing:
  "list_all (\<lambda>(u, i). i \<notin> set (list_or_empty (resp_data (select_user_badges st1 uid))))
     (insertRequests (checkAndAwardBadges st1 uid xp ce))
   \<and> (resp_error (select_badges st1) = None \<and> resp_data (select_badges st1) \<noteq> None
      \<and> resp_error (select_user_badges st1 uid) = None
      \<and> resp_error (select_experiment_runs st1 uid) = None
      \<and> list_all (\<lambda>(u, i). insert_user_badge st1 u i = None)
           (insertRequests (checkAndAwardBadges st1 uid xp ce))
      \<and> select_badges st2 = select_badges st1
      \<and> select_experiment_runs st2 uid = select_experiment_runs st1 uid
      \<and> set (list_or_empty (resp_data (select_user_badges st1 uid)))
          \<union> set (awardedBadgeIds st1 (checkAndAwardBadges st1 uid xp ce))
          \<subseteq> set (list_or_empty (resp_data (select_user_badges st2 uid)))
    \<longrightarrow> awardedBadgeNames (checkAndAwardBadges st2 uid xp ce) = []
        \<and> insertRequests (checkAndAwardBadges st2 uid xp ce) = [])"
proof -
  have second: "awardedBadgeNames (checkAndAwardBadges st2 uid xp ce) = []
        \<and> insertRequests (checkAndAwardBadges st2 uid xp ce) = []"
    if f1: "resp_error (select_badges st1) = None" and f2: "resp_data (select_badges st1) \<noteq> None"
      and f3: "resp_error (select_user_badges st1 uid) = None"
      and f4: "resp_error (select_experiment_runs st1 uid) = None"
      and ok: "list_all (\<lambda>(u, i). insert_user_badge st1 u i = None)
           (insertRequests (checkAndAwardBadges st1 uid xp ce))"
      and sb: "select_badges st2 = select_badges st1"
      and sr: "select_experiment_runs st2 uid = select_experiment_runs st1 uid"
      and sub: "set (list_or_empty (resp_data (select_user_badges st1 uid)))
          \<union> set (awardedBadgeIds st1 (checkAndAwardBadges st1 uid xp ce))
          \<subseteq> set (list_or_empty (resp_data (select_user_badges st2 uid)))"
  proof (cases "resp_error (select_user_badges st2 uid) = None")
    case False
    then show ?thesis
      using checkAndAwardBadges_fetch_failed [of st2 uid xp ce] by (simp add: noOutcome_def)
  next
    case True
    from f2 obtain badges where bs: "resp_data (select_badges st1) = Some badges" by auto
    let ?e1 = "set (list_or_empty (resp_data (select_user_badges st1 uid)))"
    let ?e2 = "set (list_or_empty (resp_data (select_user_badges st2 uid)))"
    let ?runs = "list_or_empty (resp_data (select_experiment_runs st1 uid))"
    have o1: "checkAndAwardBadges st1 uid xp ce =
       \<lparr>awardedBadgeNames = map badge_name (filter (\<lambda>b. qualifies ?e1 xp ?runs ce b
             \<and> insert_user_badge st1 uid (badge_id b) = None) badges),
        insertRequests = map (\<lambda>b. (uid, badge_id b)) (filter (qualifies ?e1 xp ?runs ce) badges)\<rparr>"
      using checkAndAwardBadges_fetched [OF f1 bs f3 f4 refl refl] .
    have o2: "checkAndAwardBadges st2 uid xp ce =
       \<lparr>awardedBadgeNames = map badge_name (filter (\<lambda>b. qualifies ?e2 xp ?runs ce b
             \<and> insert_user_badge st2 uid (badge_id b) = None) badges),
        insertRequests = map (\<lambda>b. (uid, badge_id b)) (filter (qualifies ?e2 xp ?runs ce) badges)\<rparr>"
      using checkAndAwardBadges_fetched [of st2 badges uid ?e2 ?runs xp ce] f1 bs f4 True sb sr
      by simp
    have none: "\<not> qualifies ?e2 xp ?runs ce b" if "b \<in> set badges" for b
    proof
      assume q2: "qualifies ?e2 xp ?runs ce b"
      then have "badge_id b \<notin> ?e2" and sh: "shouldAward (criteria b) xp ?runs ce"
        by (simp_all add: qualifies_def)
      with sub have n1: "badge_id b \<notin> ?e1"
        and n2: "badge_id b \<notin> set (awardedBadgeIds st1 (checkAndAwardBadges st1 uid xp ce))"
        by auto
      from n1 sh have q1: "qualifies ?e1 xp ?runs ce b" by (simp add: qualifies_def)
      with that have req: "(uid, badge_id b) \<in> set (insertRequests (checkAndAwardBadges st1 uid xp ce))"
        unfolding o1 by force
      with ok have "insert_user_badge st1 uid (badge_id b) = None"
        by (auto simp: list_all_iff)
      with req have "badge_id b \<in> set (awardedBadgeIds st1 (checkAndAwardBadges st1 uid xp ce))"
        by (force simp: awardedBadgeIds_def)
      with n2 show False by simp
    qed
    then have "filter (qualifies ?e2 xp ?runs ce) badges = []"
      by (simp add: filter_empty_conv)
    moreover have "filter (\<lambda>b. qualifies ?e2 xp ?runs ce b
             \<and> insert_user_badge st2 uid (badge_id b) = None) badges = []"
      using none by (simp add: filter_empty_conv)
    ultimately show ?thesis unfolding o2 by simp
  qed
  show ?thesis using requests_not_earned [of st1 uid xp ce] second by blast
qed

theorem earned_skipped_second_call_awards_nothing_witness:
  "resp_error (select_badges (storeOf threeXpBadges [] [] [])) = None
   \<and> awardedBadgeNames (checkAndAwardBadges (storeOf threeXpBadges [] [] []) ''u'' 250 None)
       = [''Rising Star'', ''Scholar'']
   \<and> awardedBadgeIds (storeOf threeXpBadges [] [] [])
        (checkAndAwardBadges (storeOf threeXpBadges [] [] []) ''u'' 250 None) = [''b1'', ''b2'']
   \<and> checkAndAwardBadges (storeOf threeXpBadges [''b1'', ''b2''] [] []) ''u'' 250 None
       = \<lparr>awardedBadgeNames = [], insertRequests = []\<rparr>"
  using earned_skipped_second_call_awards_nothing
    [of "storeOf threeXpBadges [] [] []" "''u''" 250 None "storeOf threeXpBadges [''b1'', ''b2''] [] []"]
  by (simp add: store_eval fixture_eval criteria_eval awardedBadgeIds_def)


text \<open>
  Claim C6, as the code has it. The claim says that a badge whose criteria have both
  \<open>subject\<close> and \<open>min_accuracy\<close> is awarded only when every attempt for the subject
  is completed with the required score. That fails when the criteria also carry
  \<open>experiments_completed\<close>: with three of four Biology runs completed the count check
  for the subject sets the flag, and the badge is awarded.
\<close>

theorem subject_mastery_with_count_awarded_early:
  "truthy_str (subject biologyWizardWithCount) \<and> min_accuracy biologyWizardWithCount = Some 90
   \<and> length (filter (sameSubject biologyWizardWithCount) (filter isCompleted threeOfFourBiology)) = 3
   \<and> length (filter (sameSubject biologyWizardWithCount) threeOfFourBiology) = 4
   \<and> shouldAward biologyWizardWithCount 0 threeOfFourBiology None
   \<and> awardedBadgeNames (checkAndAwardBadges
        (storeOf [badgeOf ''b-bio'' ''Biology Wizard'' biologyWizardWithCount] [] threeOfFourBiology [])
        ''u'' 0 None) = [''Biology Wizard'']"
  by (simp add: store_eval fixture_eval criteria_eval toLowerCase_def toLowerCase_char_def isUpper_def)

text \<open>
  Claim C6, amended. For criteria with \<open>subject\<close> and \<open>min_accuracy\<close>, the subject
  mastery check holds exactly when there is at least one attempt for the subject, the
  number of completed attempts for the subject equals the number of all attempts for the
  subject, and every completed attempt for the subject has a score (a missing score counts
  as 0) of at least \<open>min_accuracy\<close>. A badge whose criteria carry no field of another
  check has its flag set exactly then.
\<close>

theorem subject_mastery_all_completed:
  "(truthy_str (subject c) \<and> min_accuracy c = Some m \<longrightarrow>
      (check_subject_min_accuracy c (filter isCompleted runs) runs False \<longleftrightarrow>
         length (filter (sameSubject c) runs) > 0
       \<and> length (filter (sameSubject c) (filter isCompleted runs))
           = length (filter (sameSubject c) runs)
       \<and> list_all (\<lambda>r. score_or_0 r \<ge> m) (filter (sameSubject c) (filter isCompleted runs))))
   \<and> (onlySubjectMastery c \<and> min_accuracy c = Some m \<longrightarrow>
      (shouldAward c xp runs ce \<longleftrightarrow>
         length (filter (sameSubject c) runs) > 0
       \<and> length (filter (sameSubject c) (filter isCompleted runs))
           = length (filter (sameSubject c) runs)
       \<and> list_all (\<lambda>r. score_or_0 r \<ge> m) (filter (sameSubject c) (filter isCompleted runs))))"
proof -
  have a: "check_subject_min_accuracy c (filter isCompleted runs) runs False \<longleftrightarrow>
         length (filter (sameSubject c) runs) > 0
       \<and> length (filter (sameSubject c) (filter isCompleted runs))
           = length (filter (sameSubject c) runs)
       \<and> list_all (\<lambda>r. score_or_0 r \<ge> m) (filter (sameSubject c) (filter isCompleted runs))"
    if "truthy_str (subject c)" "min_accuracy c = Some m"
    using that by (simp add: check_subject_min_accuracy_def Let_def)
  have b: "shouldAward c xp runs ce \<longleftrightarrow>
         length (filter (sameSubject c) runs) > 0
       \<and> length (filter (sameSubject c) (filter isCompleted runs))
           = length (filter (sameSubject c) runs)
       \<and> list_all (\<lambda>r. score_or_0 r \<ge> m) (filter (sameSubject c) (filter isCompleted runs))"
    if "onlySubjectMastery c" "min_accuracy c = Some m"
    using a that onlySubjectMastery_shouldAward [OF that(1), of xp runs ce]
    by (simp add: onlySubjectMastery_def)
  show ?thesis using a b by blast
qed

text \<open>
  The instances: with three of four Biology runs completed, each at 100, the flag is
  not set; with the fourth completed at 92 it is.
\<close>

theorem subject_mastery_all_completed_witness:
  "onlySubjectMastery biologyWizard \<and> min_accuracy biologyWizard = Some 90
   \<and> length (filter (sameSubject biologyWizard) (filter isCompleted threeOfFourBiology)) = 3
   \<and> length (filter (sameSubject biologyWizard) threeOfFourBiology) = 4
   \<and> \<not> shouldAward biologyWizard 5000 threeOfFourBiology None
   \<and> length (filter (sameSubject biologyWizard) (filter isCompleted fourOfFourBiology)) = 4
   \<and> shouldAward biologyWizard 5000 fourOfFourBiology None"
  using subject_mastery_all_completed [of biologyWizard 90 threeOfFourBiology 5000 None]
    subject_mastery_all_completed [of biologyWizard 90 fourOfFourBiology 5000 None]
  by (simp add: fixture_eval criteria_eval onlySubjectMastery_def toLowerCase_def toLowerCase_char_def isUpper_def)

text \<open>
  Claim C10, as the code has it. The claim says that a badge whose criteria have both
  \<open>subject\<close> and \<open>min_accuracy\<close> is never awarded to a user without an attempt for
  the subject. That fails when the criteria also carry \<open>xp_threshold\<close>: a user with
  enough XP and no run at all is awarded the badge through the XP check.
\<close>

theorem subject_mastery_with_xp_awarded_without_attempt:
  "truthy_str (subject biologyWizardWithXp) \<and> min_accuracy biologyWizardWithXp = Some 90
   \<and> filter (sameSubject biologyWizardWithXp) [] = []
   \<and> shouldAward biologyWizardWithXp 1500 [] None
   \<and> awardedBadgeNames (checkAndAwardBadges
        (storeOf [badgeOf ''b-bio'' ''Biology Wizard'' biologyWizardWithXp] [] [] [])
        ''u'' 1500 None) = [''Biology Wizard'']"
  by (simp add: store_eval fixture_eval criteria_eval)

text \<open>
  Claim C10, amended. The subject mastery check never sets the flag for a user without
  an attempt for the subject: it leaves the flag as it was. So a badge whose criteria
  carry \<open>subject\<close> and \<open>min_accuracy\<close> and no field of another check is never
  awarded to such a user.
\<close>

theorem subject_mastery_needs_an_attempt:
  "(filter (sameSubject c) allRuns = []
      \<longrightarrow> check_subject_min_accuracy c completedRuns allRuns s = s)
   \<and> (onlySubjectMastery c \<and> filter (sameSubject c) runs = []
      \<longrightarrow> \<not> shouldAward c xp runs ce)"
proof -
  have a: "check_subject_min_accuracy c completedRuns allRuns s = s"
    if "filter (sameSubject c) allRuns = []"
    using that by (simp add: check_subject_min_accuracy_def Let_def split: option.splits)
  have b: "\<not> shouldAward c xp runs ce" if "onlySubjectMastery c" "filter (sameSubject c) runs = []"
    using that onlySubjectMastery_shouldAward [of c xp runs ce]
    by (simp add: check_subject_min_accuracy_def Let_def split: option.splits)
  show ?thesis using a b by blast
qed

theorem subject_mastery_needs_an_attempt_witness:
  "filter (sameSubject biologyWizard) [completedRun ''Acid-Base Titration'' ''Chemistry'' 100] = []
   \<and> onlySubjectMastery biologyWizard
   \<and> length (filter (sameSubject biologyWizard)
        (filter isCompleted [completedRun ''Acid-Base Titration'' ''Chemistry'' 100])) = 0
   \<and> \<not> check_subject_min_accuracy biologyWizard
        (filter isCompleted [completedRun ''Acid-Base Titration'' ''Chemistry'' 100])
        [completedRun ''Acid-Base Titration'' ''Chemistry'' 100] False
   \<and> \<not> shouldAward biologyWizard 5000 [completedRun ''Acid-Base Titration'' ''Chemistry'' 100]
        (Some (completedRun ''Acid-Base Titration'' ''Chemistry'' 100))"
  using subject_mastery_needs_an_attempt
    [of biologyWizard "[completedRun ''Acid-Base Titration'' ''Chemistry'' 100]"
        "filter isCompleted [completedRun ''Acid-Base Titration'' ''Chemistry'' 100]" False
        "[completedRun ''Acid-Base Titration'' ''Chemistry'' 100]" 5000
        "Some (completedRun ''Acid-Base Titration'' ''Chemistry'' 100)"]
  by (simp add: fixture_eval criteria_eval onlySubjectMastery_def toLowerCase_def toLowerCase_char_def isUpper_def)


text \<open>
  Claim C7. Every type-based check tests the same thing: the normalised
  \<open>experiment_type\<close> of the criteria occurs as a contiguous block in the normalised
  name of the run. The normalisation lower-cases, deletes apostrophes and double quotes,
  replaces every run of white space by one space and trims: its result has no quote, no
  upper-case letter, no white space other than single spaces, and no space at either
  end. For criteria with a non-empty \<open>experiment_type\<close> the count check counts the
  completed runs that pass this test (further filtered by \<open>min_accuracy\<close> when that
  is present), the accuracy check takes the maximum over them, and the completion check
  sets the flag exactly for a just completed run that passes it and has status
  \<open>completed\<close>, when the criteria ask for completion only or carry neither an accuracy
  nor a count threshold.
\<close>

theorem typeMatches_normalized_substring:
  "(typeMatches t r \<longleftrightarrow>
      sublist (normalizeExperimentName t) (normalizeExperimentName (name_or_empty r)))
   \<and> normalizeExperimentName s = trim (replaceWs (removeQuotes (toLowerCase s)))
   \<and> list_all (\<lambda>c. \<not> isQuote c \<and> \<not> isUpper c \<and> (isSpace c \<longrightarrow> c = CHR '' ''))
        (normalizeExperimentName s)
   \<and> \<not> sublist ''  '' (normalizeExperimentName s)
   \<and> (normalizeExperimentName s = []
       \<or> (\<not> isSpace (hd (normalizeExperimentName s))
           \<and> \<not> isSpace (last (normalizeExperimentName s))))
   \<and> (experiment_type c = Some t \<and> t \<noteq> [] \<longrightarrow>
        (experiments_completed c = Some n \<and> min_accuracy c = None \<longrightarrow>
           check_experiments_completed c rs False
             = (n \<le> int (length (filter (\<lambda>r. sublist (normalizeExperimentName t)
                    (normalizeExperimentName (name_or_empty r))) rs))))
      \<and> (experiments_completed c = Some n \<and> min_accuracy c = Some m \<longrightarrow>
           check_experiments_completed c rs False
             = (n \<le> int (length (filter (\<lambda>r. m \<le> score_or_0 r)
                    (filter (\<lambda>r. sublist (normalizeExperimentName t)
                       (normalizeExperimentName (name_or_empty r))) rs)))))
      \<and> (accuracy_threshold c = Some a \<longrightarrow>
           check_accuracy_threshold c rs False
             = (a \<le> maxAccuracy (filter (\<lambda>r. sublist (normalizeExperimentName t)
                    (normalizeExperimentName (name_or_empty r))) rs)))
      \<and> (check_experiment_type c (Some ce) False
           = (sublist (normalizeExperimentName t) (normalizeExperimentName (name_or_empty ce))
              \<and> status ce = Some ''completed''
              \<and> (completed c = Some True
                  \<or> (\<not> truthy_num (accuracy_threshold c)
                      \<and> \<not> truthy_num (experiments_completed c))))))"
proof -
  have tm: "typeMatches t = (\<lambda>r. sublist (normalizeExperimentName t)
        (normalizeExperimentName (name_or_empty r)))"
    by (rule ext) (rule typeMatches_sublist)
  have checks: "(experiments_completed c = Some n \<and> min_accuracy c = None \<longrightarrow>
           check_experiments_completed c rs False
             = (n \<le> int (length (filter (typeMatches t) rs))))
      \<and> (experiments_completed c = Some n \<and> min_accuracy c = Some m \<longrightarrow>
           check_experiments_completed c rs False
             = (n \<le> int (length (filter (\<lambda>r. m \<le> score_or_0 r) (filter (typeMatches t) rs)))))
      \<and> (accuracy_threshold c = Some a \<longrightarrow>
           check_accuracy_threshold c rs False = (a \<le> maxAccuracy (filter (typeMatches t) rs)))
      \<and> (check_experiment_type c (Some ce) False
           = (typeMatches t ce \<and> status ce = Some ''completed''
              \<and> (completed c = Some True
                  \<or> (\<not> truthy_num (accuracy_threshold c)
                      \<and> \<not> truthy_num (experiments_completed c)))))"
    if "experiment_type c = Some t" "t \<noteq> []"
    using that
    by (auto simp: check_experiments_completed_def check_accuracy_threshold_def
        check_experiment_type_def truthy_str_def str_of_def Let_def isCompleted_def
        split: if_splits)
  show ?thesis
    using checks normalize_chars [of s] normalize_single_spaces [of s] normalize_trimmed [of s]
    unfolding tm
    by (simp add: normalizeExperimentName_def [symmetric] typeMatches_sublist) 
qed


text \<open>
  The instances: the criterion \<open>ohm's law\<close> normalises to \<open>ohms law\<close>, which occurs
  in the normalised names of the runs \<open>Ohms Law Laboratory\<close> and \<open>OHM'S   LAW\<close> and
  not in that of \<open>Acid-Base Titration\<close>. The count check needs both Ohm's law runs, the
  accuracy check needs the score of \<open>Ohms Law Laboratory\<close>, and the completion check
  holds for a just completed \<open>Ohms Law Laboratory\<close>, whose normalised name contains the
  criterion without being equal to it, and fails for a just completed titration.
\<close>

theorem typeMatches_normalized_substring_witness:
  "experiment_type ohmCount = Some ''ohm's law'' \<and> ''ohm's law'' \<noteq> []
   \<and> experiments_completed ohmCount = Some 2 \<and> min_accuracy ohmCount = None
   \<and> normalizeExperimentName ''ohm's law'' = ''ohms law''
   \<and> normalizeExperimentName ''Ohms Law Laboratory'' = ''ohms law laboratory''
   \<and> normalizeExperimentName ''OHM'S   LAW'' = ''ohms law''
   \<and> typeMatches ''ohm's law'' (completedRun ''Ohms Law Laboratory'' ''Physics'' 95)
   \<and> typeMatches ''ohm's law'' (completedRun ''OHM'S   LAW'' ''Physics'' 70)
   \<and> \<not> typeMatches ''ohm's law'' (completedRun ''Acid-Base Titration'' ''Chemistry'' 100)
   \<and> sublist ''ohms law'' ''ohms law laboratory''
   \<and> \<not> sublist ''ohms law'' ''acid-base titration''
   \<and> check_experiments_completed ohmCount ohmRuns False
   \<and> check_accuracy_threshold ohmAccuracy ohmRuns False
   \<and> check_experiment_type ohmCompleted (Some (completedRun ''OHM'S   LAW'' ''Physics'' 70)) False
   \<and> experiment_type ohmCompleted = Some ''ohm's law'' \<and> completed ohmCompleted = Some True
   \<and> status (completedRun ''Ohms Law Laboratory'' ''Physics'' 95) = Some ''completed''
   \<and> normalizeExperimentName ''Ohms Law Laboratory'' \<noteq> normalizeExperimentName ''ohm's law''
   \<and> check_experiment_type ohmCompleted
        (Some (completedRun ''Ohms Law Laboratory'' ''Physics'' 95)) False
   \<and> \<not> check_experiment_type ohmCompleted
        (Some (completedRun ''Acid-Base Titration'' ''Chemistry'' 100)) False
   \<and> \<not> check_experiment_type ohmCompleted
        (Some (startedRun ''Ohms Law Laboratory'' ''Physics'')) False"
proof -
  have c: "experiment_type ohmCount = Some ''ohm's law''" "''ohm's law'' \<noteq> []"
    "experiments_completed ohmCount = Some 2" "min_accuracy ohmCount = None"
    by (simp_all add: ohmCount_def noCriteria_def)
  have oc: "experiment_type ohmCompleted = Some ''ohm's law''"
    "completed ohmCompleted = Some True"
    by (simp_all add: ohmCompleted_def noCriteria_def)
  have name: "name_or_empty (completedRun n s x) = n" "name_or_empty (startedRun n s) = n"
    "status (completedRun n s x) = Some ''completed''"
    "status (startedRun n s) = Some ''in_progress''" for n s x
    by (simp_all add: name_or_empty_def completedRun_def startedRun_def)
  have "typeMatches ''ohm's law'' (completedRun ''Ohms Law Laboratory'' ''Physics'' 95) \<longleftrightarrow>
      sublist (normalizeExperimentName ''ohm's law'')
        (normalizeExperimentName (name_or_empty (completedRun ''Ohms Law Laboratory'' ''Physics'' 95)))"
    using typeMatches_normalized_substring
      [of "''ohm's law''" "completedRun ''Ohms Law Laboratory'' ''Physics'' 95"]
    by (rule conjunct1)
  then have sub: "sublist ''ohms law'' ''ohms law laboratory''"
    using typeMatches_ohm_laboratory
    by (simp only: name normalize_ohms_law normalize_ohms_law_laboratory)
  have "typeMatches ''ohm's law'' (completedRun ''Acid-Base Titration'' ''Chemistry'' 100) \<longleftrightarrow>
      sublist ''ohms law'' ''acid-base titration''"
    using typeMatches_normalized_substring
      [of "''ohm's law''" "completedRun ''Acid-Base Titration'' ''Chemistry'' 100", THEN conjunct1]
    by (simp only: name normalize_ohms_law normalize_titration)
  then have nsub: "\<not> sublist ''ohms law'' ''acid-base titration''"
    using typeMatches_ohm_titration by blast
  have cnt: "check_experiments_completed ohmCount ohmRuns False"
    by (simp add: check_experiments_completed_def ohmCount_def noCriteria_def truthy_str_def
        str_of_def filter_ohmRuns)
  have acc: "check_accuracy_threshold ohmAccuracy ohmRuns False"
    by (simp add: check_accuracy_threshold_def ohmAccuracy_def noCriteria_def truthy_str_def
        str_of_def filter_ohmRuns maxAccuracy_def score_or_0_def completedRun_def)
  have tc: "check_experiment_type ohmCompleted
      (Some (completedRun ''OHM'S   LAW'' ''Physics'' 70)) False"
    using typeMatches_ohm_upper
    by (simp add: check_experiment_type_def ohmCompleted_def noCriteria_def truthy_str_def
        str_of_def isCompleted_def) (simp add: completedRun_def)
  have ne: "normalizeExperimentName ''Ohms Law Laboratory'' \<noteq> normalizeExperimentName ''ohm's law''"
    by (simp add: normalize_ohms_law normalize_ohms_law_laboratory)
  have eqn: "check_experiment_type ohmCompleted (Some ce) False
      = (sublist ''ohms law'' (normalizeExperimentName (name_or_empty ce))
         \<and> status ce = Some ''completed'')" for ce
    using typeMatches_normalized_substring
      [where t = "''ohm's law''" and c = ohmCompleted and ce = ce] oc
    by (simp add: normalize_ohms_law)
  have lab: "check_experiment_type ohmCompleted
        (Some (completedRun ''Ohms Law Laboratory'' ''Physics'' 95)) False"
    using sub by (simp add: eqn name normalize_ohms_law_laboratory)
  have tit: "\<not> check_experiment_type ohmCompleted
        (Some (completedRun ''Acid-Base Titration'' ''Chemistry'' 100)) False"
    using nsub by (simp add: eqn name normalize_titration)
  have started: "\<not> check_experiment_type ohmCompleted
        (Some (startedRun ''Ohms Law Laboratory'' ''Physics'')) False"
    by (simp add: eqn name)
  show ?thesis
    using c sub nsub cnt acc tc typeMatches_ohm_laboratory typeMatches_ohm_upper
      typeMatches_ohm_titration normalize_ohms_law normalize_ohms_law_laboratory
      normalize_ohms_law_upper oc name(3) [of "''Ohms Law Laboratory''" "''Physics''" 95]
      ne lab tit started
    by (intro conjI)
qed

subsection \<open>Properties of the streak\<close>

text \<open>
  Claim C5. For every list of rows and every instant of the call, the streak is the
  length of the run of consecutive active days that ends at the anchor day and cannot be
  extended further back, where a day is active when some row with status
  \<open>completed\<close> was completed on it: the anchor is today when today is active, and
  yesterday when today is not active and yesterday is. When neither today nor yesterday
  is active, in particular when there is no completion at all, the streak is 0. The
  function is total: the loop ends for every input.
\<close>

theorem calculateStreak_run:
  "(dayOf now \<in> activeDays dayOf rows
      \<longrightarrow> runEndingAt (activeDays dayOf rows) (dayOf now) (calculateStreak dayOf now rows))
   \<and> (dayOf now \<notin> activeDays dayOf rows \<and> dayOf now - 1 \<in> activeDays dayOf rows
      \<longrightarrow> runEndingAt (activeDays dayOf rows) (dayOf now - 1) (calculateStreak dayOf now rows))
   \<and> (dayOf now \<notin> activeDays dayOf rows \<and> dayOf now - 1 \<notin> activeDays dayOf rows
      \<longrightarrow> calculateStreak dayOf now rows = 0)
   \<and> (activeDays dayOf rows = {} \<longrightarrow> calculateStreak dayOf now rows = 0)"
proof -
  let ?dates = "completedDates dayOf rows"
  have D: "set ?dates = activeDays dayOf rows" by (rule set_completedDates)
  have run: "runEndingAt (set ?dates) d (countBackwards ?dates d 0)" for d
    using countBackwards_run [of ?dates d 0] by auto
  have ne: "?dates \<noteq> []" if "x \<in> activeDays dayOf rows" for x
    using that D by auto
  have a: "runEndingAt (activeDays dayOf rows) (dayOf now) (calculateStreak dayOf now rows)"
    if "dayOf now \<in> activeDays dayOf rows"
    using that ne [OF that] run [of "dayOf now"] D by (simp add: calculateStreak_def Let_def)
  have b: "runEndingAt (activeDays dayOf rows) (dayOf now - 1) (calculateStreak dayOf now rows)"
    if "dayOf now \<notin> activeDays dayOf rows" "dayOf now - 1 \<in> activeDays dayOf rows"
    using that ne [OF that(2)] run [of "dayOf now - 1"] D by (simp add: calculateStreak_def Let_def)
  have c: "calculateStreak dayOf now rows = 0"
    if "dayOf now \<notin> activeDays dayOf rows" "dayOf now - 1 \<notin> activeDays dayOf rows"
    using that D by (simp add: calculateStreak_def Let_def)
  have d: "calculateStreak dayOf now rows = 0" if "activeDays dayOf rows = {}"
    using that c by simp
  show ?thesis using a b c d by blast
qed

text \<open>
  The instances, with today the day 20000: completions on the four days up to today give
  4; with a gap yesterday, 1; completions on the two days before today give 2 and a
  single one yesterday gives 1; a last completion two days ago gives 0, as do a run that
  is still in progress and an empty history.
\<close>

theorem calculateStreak_run_witness:
  "utcDay (noonOf 20000) = 20000
   \<and> 20000 \<in> activeDays utcDay
        [completedOn 19997, completedOn 19998, completedOn 19999, completedOn 20000]
   \<and> calculateStreak utcDay (noonOf 20000)
        [completedOn 19997, completedOn 19998, completedOn 19999, completedOn 20000] = 4
   \<and> runEndingAt (activeDays utcDay
        [completedOn 19997, completedOn 19998, completedOn 19999, completedOn 20000]) 20000 4
   \<and> calculateStreak utcDay (noonOf 20000)
        [completedOn 19997, completedOn 19998, completedOn 20000] = 1
   \<and> 20000 \<notin> activeDays utcDay [completedOn 19998, completedOn 19999]
   \<and> 19999 \<in> activeDays utcDay [completedOn 19998, completedOn 19999]
   \<and> calculateStreak utcDay (noonOf 20000) [completedOn 19998, completedOn 19999] = 2
   \<and> runEndingAt (activeDays utcDay [completedOn 19998, completedOn 19999]) 19999 2
   \<and> calculateStreak utcDay (noonOf 20000) [completedOn 19999] = 1
   \<and> calculateStreak utcDay (noonOf 20000) [completedOn 19998] = 0
   \<and> calculateStreak utcDay (noonOf 20000)
        [\<lparr>row_status = Some ''in_progress'', completed_at = None\<rparr>] = 0
   \<and> calculateStreak utcDay (noonOf 20000) [] = 0"
proof -
  have s4: "calculateStreak utcDay (noonOf 20000)
        [completedOn 19997, completedOn 19998, completedOn 19999, completedOn 20000] = 4"
    by (simp add: streak_eval)
  have s2: "calculateStreak utcDay (noonOf 20000) [completedOn 19998, completedOn 19999] = 2"
    by (simp add: streak_eval)
  have d: "utcDay (noonOf 20000) = 20000" by (simp add: utcDay_def noonOf_def msPerDay_def)
  have m4: "20000 \<in> activeDays utcDay
        [completedOn 19997, completedOn 19998, completedOn 19999, completedOn 20000]"
    by (simp add: activeDays_def completedOn_def utcDay_def msPerDay_def)
  have m2: "20000 \<notin> activeDays utcDay [completedOn 19998, completedOn 19999]"
    "19999 \<in> activeDays utcDay [completedOn 19998, completedOn 19999]"
    by (simp_all add: activeDays_def completedOn_def utcDay_def msPerDay_def)
  have r4: "runEndingAt (activeDays utcDay
        [completedOn 19997, completedOn 19998, completedOn 19999, completedOn 20000]) 20000 4"
    using calculateStreak_run [of utcDay "noonOf 20000"
      "[completedOn 19997, completedOn 19998, completedOn 19999, completedOn 20000]"] m4
    by (simp only: d s4) 
  have r2: "runEndingAt (activeDays utcDay [completedOn 19998, completedOn 19999]) 19999 2"
    using calculateStreak_run [of utcDay "noonOf 20000" "[completedOn 19998, completedOn 19999]"] m2
    by (simp only: d s2) simp
  have rest: "calculateStreak utcDay (noonOf 20000)
        [completedOn 19997, completedOn 19998, completedOn 20000] = 1"
    "calculateStreak utcDay (noonOf 20000) [completedOn 19999] = 1"
    "calculateStreak utcDay (noonOf 20000) [completedOn 19998] = 0"
    "calculateStreak utcDay (noonOf 20000)
        [\<lparr>row_status = Some ''in_progress'', completed_at = None\<rparr>] = 0"
    "calculateStreak utcDay (noonOf 20000) [] = 0"
    by (simp_all add: streak_eval)
  show ?thesis using d m4 s4 r4 m2 s2 r2 rest by (intro conjI)
qed


subsection \<open>Properties of the level\<close>

text \<open>
  Claim C3. The level is the XP total divided by 500, rounded down, plus one:
  \<open>computeLevel xp = floor (xp / 500) + 1\<close>, with the quotient taken in the reals. The
  function is total (a HOL function with no error value), and at the boundaries
  \<open>computeLevel 0 = 1\<close>, \<open>computeLevel 499 = 1\<close>, \<open>computeLevel 500 = 2\<close>,
  \<open>computeLevel 999 = 2\<close> and \<open>computeLevel 1000 = 3\<close>.
\<close>

theorem computeLevel_floor:
  "computeLevel xp = \<lfloor>real_of_int xp / 500\<rfloor> + 1
   \<and> computeLevel 0 = 1 \<and> computeLevel 499 = 1 \<and> computeLevel 500 = 2
   \<and> computeLevel 999 = 2 \<and> computeLevel 1000 = 3"
proof -
  have "\<lfloor>real_of_int xp / 500\<rfloor> = xp div 500"
    using floor_divide_of_int_eq [of xp 500, where ?'a = real] by simp
  then show ?thesis
    by (simp add: computeLevel_def)
qed

text \<open>
  Claim C4. The level is monotone in the XP total: more XP never gives a lower level.
\<close>

theorem computeLevel_mono:
  "xp1 \<le> xp2 \<Longrightarrow> computeLevel xp1 \<le> computeLevel xp2"
  unfolding computeLevel_def by (simp add: zdiv_mono1)

theorem computeLevel_mono_witness:
  "(0::int) \<le> 499 \<and> 499 \<le> (1200::int) \<and> computeLevel 0 \<le> computeLevel 499
   \<and> computeLevel 499 \<le> computeLevel 1200 \<and> computeLevel 499 = 1 \<and> computeLevel 1200 = 3"
  using computeLevel_mono [of 0 499] computeLevel_mono [of 499 1200]
  by (simp add: computeLevel_def)

end
